theory Spec2Isabelle
  imports Main "HOL-Library.Word"
begin

unbundle bit_operations_syntax

section \<open>Single-shot V4L2 capture (user\_space/main.c)\<close>

text \<open>
  The program is a straight line of system calls on one file-static record
  \<open>camera_params\<close>. Each C function becomes a function from the process state to a
  \<open>result\<close>: \<open>Running s\<close> when the function returns, \<open>Exited c s\<close> when it calls
  \<open>exit(c)\<close>. Everything the kernel decides (descriptors, ioctl statuses, the payloads
  the driver writes back, the frame bytes) is read from a \<open>kernel\<close> record of answers,
  so a theorem quantified over the kernel holds for every behaviour of the driver.
  Every system call and every line printed is appended to a trace.
\<close>

type_synonym u8 = "8 word"
type_synonym u32 = "32 word"

subsection \<open>Payload structures of linux/videodev2.h\<close>

text \<open>
  The structures and constants below belong to the Linux UAPI headers the program
  includes. Only members the program or the claims touch are kept; \<open>memset (.., 0, ..)\<close>
  of a structure is the record with every member 0.
\<close>

record v4l2_pix_format =
  width :: u32
  height :: u32
  pixelformat :: u32
  pix_field :: u32
  bytesperline :: u32
  sizeimage :: u32
  colorspace :: u32

record v4l2_format =
  fmt_type :: u32
  fmt_pix :: v4l2_pix_format

record v4l2_requestbuffers =
  req_count :: u32
  req_type :: u32
  req_memory :: u32
  req_capabilities :: u32

record v4l2_buffer =
  buf_index :: u32
  buf_type :: u32
  bytesused :: u32
  buf_flags :: u32
  buf_field :: u32
  timestamp_sec :: int
  timestamp_usec :: int
  sequence :: u32
  buf_memory :: u32
  m_offset :: u32
  buf_length :: u32

definition V4L2_BUF_TYPE_VIDEO_CAPTURE :: u32 where
  "V4L2_BUF_TYPE_VIDEO_CAPTURE = 1"

definition V4L2_MEMORY_MMAP :: u32 where
  "V4L2_MEMORY_MMAP = 1"

definition V4L2_COLORSPACE_REC709 :: u32 where
  "V4L2_COLORSPACE_REC709 = 3"

definition v4l2_fourcc :: "u32 \<Rightarrow> u32 \<Rightarrow> u32 \<Rightarrow> u32 \<Rightarrow> u32" where
  "v4l2_fourcc a b c d = a OR push_bit 8 b OR push_bit 16 c OR push_bit 24 d"

definition V4L2_PIX_FMT_MJPEG :: u32 where
  "V4L2_PIX_FMT_MJPEG = v4l2_fourcc 0x4D 0x4A 0x50 0x47"

definition zero_pix_format :: v4l2_pix_format where
  "zero_pix_format = \<lparr>width = 0, height = 0, pixelformat = 0, pix_field = 0,
     bytesperline = 0, sizeimage = 0, colorspace = 0\<rparr>"

definition zero_format :: v4l2_format where
  "zero_format = \<lparr>fmt_type = 0, fmt_pix = zero_pix_format\<rparr>"

definition zero_requestbuffers :: v4l2_requestbuffers where
  "zero_requestbuffers = \<lparr>req_count = 0, req_type = 0, req_memory = 0, req_capabilities = 0\<rparr>"

definition zero_buffer :: v4l2_buffer where
  "zero_buffer = \<lparr>buf_index = 0, buf_type = 0, bytesused = 0, buf_flags = 0, buf_field = 0,
     timestamp_sec = 0, timestamp_usec = 0, sequence = 0, buf_memory = 0, m_offset = 0,
     buf_length = 0\<rparr>"

subsection \<open>Flags of fcntl.h and sys/mman.h\<close>

definition O_WRONLY :: u32 where "O_WRONLY = 0x1"
definition O_RDWR :: u32 where "O_RDWR = 0x2"
definition O_CREAT :: u32 where "O_CREAT = 0x40"
definition O_TRUNC :: u32 where "O_TRUNC = 0x200"
definition O_APPEND :: u32 where "O_APPEND = 0x400"

definition PROT_READ :: u32 where "PROT_READ = 0x1"
definition PROT_WRITE :: u32 where "PROT_WRITE = 0x2"
definition MAP_SHARED :: u32 where "MAP_SHARED = 0x1"

datatype ptr = MAP_FAILED | Addr nat

definition NULL :: ptr where
  "NULL = Addr 0"

subsection \<open>The kernel as a record of answers\<close>

text \<open>
  A system call returns a status and, when the status is negative, leaves an error
  number in \<open>errno\<close>. An ioctl with a read-write payload also returns the payload as the
  driver left it.
\<close>

record sysret =
  status :: int
  err :: nat

record 'a reply = sysret +
  out :: 'a

datatype ioctl_request =
    VIDIOC_S_FMT | VIDIOC_REQBUFS | VIDIOC_QUERYBUF | VIDIOC_STREAMON
  | VIDIOC_QBUF | VIDIOC_DQBUF | VIDIOC_STREAMOFF

datatype ioctl_arg =
    Arg_format v4l2_format
  | Arg_requestbuffers v4l2_requestbuffers
  | Arg_buffer v4l2_buffer
  | Arg_type u32

record kernel =
  sys_open :: "string \<Rightarrow> u32 \<Rightarrow> sysret"
  vidioc_s_fmt :: "int \<Rightarrow> v4l2_format \<Rightarrow> v4l2_format reply"
  vidioc_reqbufs :: "int \<Rightarrow> v4l2_requestbuffers \<Rightarrow> v4l2_requestbuffers reply"
  vidioc_querybuf :: "int \<Rightarrow> v4l2_buffer \<Rightarrow> v4l2_buffer reply"
  sys_mmap :: "u32 \<Rightarrow> u32 \<Rightarrow> u32 \<Rightarrow> int \<Rightarrow> u32 \<Rightarrow> ptr \<times> nat"
  stale :: "nat \<Rightarrow> u8"
  vidioc_streamon :: "int \<Rightarrow> u32 \<Rightarrow> sysret"
  vidioc_qbuf :: "int \<Rightarrow> v4l2_buffer \<Rightarrow> v4l2_buffer reply"
  vidioc_dqbuf :: "int \<Rightarrow> v4l2_buffer \<Rightarrow> v4l2_buffer reply"
  frame :: "u8 list"
  vidioc_streamoff :: "int \<Rightarrow> u32 \<Rightarrow> sysret"
  beyond :: "nat \<Rightarrow> u8"
  sys_write :: "int \<Rightarrow> u8 list \<Rightarrow> sysret"

subsection \<open>Process state and trace\<close>

datatype event =
    Open string u32 int
  | Ioctl int ioctl_request ioctl_arg int ioctl_arg
  | Mmap u32 u32 u32 int u32 ptr
  | Write int ptr u32 int
  | Close int
  | Stderr string nat
  | Stdout string

record camera_params_t =
  device_fs :: int
  capture_format :: v4l2_format
  buffer_request :: v4l2_requestbuffers
  buffer :: v4l2_buffer
  buffer_start :: ptr

record state =
  camera_params :: camera_params_t
  message :: string
  errno :: nat
  region :: "u8 list"
  files :: "string \<Rightarrow> u8 list option"
  fdtab :: "int \<Rightarrow> (string \<times> u32) option"
  trace :: "event list"

datatype result = Exited int state | Running state

definition and_then :: "result \<Rightarrow> (state \<Rightarrow> result) \<Rightarrow> result" where
  "and_then r f = (case r of Exited c s \<Rightarrow> Exited c s | Running s \<Rightarrow> f s)"

definition IMAGE_CAPTURE_SAVE_PATH :: string where
  "IMAGE_CAPTURE_SAVE_PATH = ''/home/pi/captured_frame_raw.jpeg''"

definition CAMERA_DEV_PATH :: string where
  "CAMERA_DEV_PATH = ''/dev/video0''"

text \<open>Static storage is zero-initialised at process start; no descriptor is open.\<close>

definition initial_state :: "(string \<Rightarrow> u8 list option) \<Rightarrow> state" where
  "initial_state fs =
     \<lparr>camera_params = \<lparr>device_fs = 0, capture_format = zero_format,
        buffer_request = zero_requestbuffers, buffer = zero_buffer, buffer_start = NULL\<rparr>,
      message = [], errno = 0, region = [], files = fs, fdtab = (\<lambda>fd. None), trace = []\<rparr>"

subsection \<open>System calls and libc\<close>

definition emit :: "event \<Rightarrow> state \<Rightarrow> state" where
  "emit e s = s\<lparr>trace := trace s @ [e]\<rparr>"

definition set_errno :: "int \<Rightarrow> nat \<Rightarrow> state \<Rightarrow> state" where
  "set_errno st e s = (if st < 0 then s\<lparr>errno := e\<rparr> else s)"

text \<open>\<open>perror (msg)\<close> prints \<open>msg\<close>, a colon and the text of \<open>errno\<close> on standard error.\<close>

definition perror :: "string \<Rightarrow> state \<Rightarrow> state" where
  "perror msg s = emit (Stderr msg (errno s)) s"

text \<open>
  \<open>open (2)\<close> on a regular file: \<open>O_CREAT\<close> creates an absent file empty, \<open>O_TRUNC\<close>
  empties an existing one, otherwise the contents stay. Whether the call succeeds is
  the kernel's answer; permissions, and with them the creation mode \<open>0660\<close> of
  \<open>save_to_image\<close>, are not part of the model.
\<close>

definition open_file :: "u32 \<Rightarrow> u8 list option \<Rightarrow> u8 list option" where
  "open_file flags f =
     (case f of
        None \<Rightarrow> (if flags AND O_CREAT \<noteq> 0 then Some [] else None)
      | Some bs \<Rightarrow> (if flags AND O_TRUNC \<noteq> 0 then Some [] else Some bs))"

definition c_open :: "kernel \<Rightarrow> string \<Rightarrow> u32 \<Rightarrow> state \<Rightarrow> int \<times> state" where
  "c_open k path flags s =
     (let r = sys_open k path flags;
          s1 = set_errno (status r) (err r) (emit (Open path flags (status r)) s)
      in if status r < 0 then (status r, s1)
         else (status r, s1\<lparr>files := (files s1)(path := open_file flags (files s1 path)),
                              fdtab := (fdtab s1)(status r := Some (path, flags))\<rparr>))"

definition c_close :: "int \<Rightarrow> state \<Rightarrow> state" where
  "c_close fd s = (emit (Close fd) s)\<lparr>fdtab := (fdtab s)(fd := None)\<rparr>"

text \<open>
  \<open>write (fd, buf, count)\<close> reads \<open>count\<close> bytes at \<open>buf\<close>. The only address
  the program passes is \<open>buffer_start\<close>, so these are the bytes of the mapped region
  and, when \<open>count\<close> is larger than the mapped length, the bytes the process finds
  behind the mapping (\<open>mmap\<close> maps whole pages); the kernel record gives the byte at
  each such offset as \<open>beyond\<close>. Nothing bounds \<open>count\<close> by the mapped length.
\<close>

definition read_memory :: "kernel \<Rightarrow> u8 list \<Rightarrow> nat \<Rightarrow> u8 list" where
  "read_memory k r n = map (\<lambda>i. if i < length r then r ! i else beyond k i) [0..<n]"

text \<open>
  \<open>write (2)\<close> on a descriptor just opened: the position is 0, or the end of the file
  under \<open>O_APPEND\<close>. The kernel returns a negative status, or the number of bytes it
  stored, which are the first so many of the bytes read at the source.
\<close>

definition put_bytes :: "nat \<Rightarrow> u8 list \<Rightarrow> u8 list \<Rightarrow> u8 list" where
  "put_bytes pos bs old = take pos old @ bs @ drop (pos + length bs) old"

definition c_write :: "kernel \<Rightarrow> int \<Rightarrow> ptr \<Rightarrow> u32 \<Rightarrow> state \<Rightarrow> int \<times> state" where
  "c_write k fd src count s =
     (let bytes = read_memory k (region s) (unat count);
          r = sys_write k fd bytes;
          ret = status r;
          s1 = set_errno ret (err r) (emit (Write fd src count ret) s)
      in if ret < 0 then (ret, s1)
         else (case fdtab s1 fd of
                 None \<Rightarrow> (ret, s1)
               | Some (path, flags) \<Rightarrow>
                   (case files s1 path of
                      None \<Rightarrow> (ret, s1)
                    | Some old \<Rightarrow>
                        (ret, s1\<lparr>files := (files s1)(path \<mapsto>
                           put_bytes (if flags AND O_APPEND \<noteq> 0 then length old else 0)
                             (take (nat ret) bytes) old)\<rparr>))))"

text \<open>\<open>memset (buffer_start, 0, n)\<close> on the mapped region.\<close>

definition memset_region :: "nat \<Rightarrow> u8 list \<Rightarrow> u8 list" where
  "memset_region n r = replicate (min n (length r)) 0 @ drop n r"

text \<open>The driver stores the frame into the queued buffer; the mapping keeps its size.\<close>

definition fill_region :: "u8 list \<Rightarrow> u8 list \<Rightarrow> u8 list" where
  "fill_region fr r = take (length r) fr @ drop (length fr) r"

subsection \<open>The program\<close>

definition open_camera_device :: "kernel \<Rightarrow> state \<Rightarrow> result" where
  "open_camera_device k s =
     (let (fd, s1) = c_open k CAMERA_DEV_PATH O_RDWR s;
          s2 = s1\<lparr>camera_params := (camera_params s1)\<lparr>device_fs := fd\<rparr>\<rparr>
      in if device_fs (camera_params s2) < 0
         then (let s3 = s2\<lparr>message := ''Error opening '' @ CAMERA_DEV_PATH @ [CHR 0x0A]\<rparr>
               in Exited 1 (perror (message s3) s3))
         else Running s2)"

definition close_camera_device :: "state \<Rightarrow> result" where
  "close_camera_device s = Running (c_close (device_fs (camera_params s)) s)"

definition set_video_format :: "kernel \<Rightarrow> state \<Rightarrow> result" where
  "set_video_format k s =
     (let cp = camera_params s;
          f = (capture_format cp)\<lparr>fmt_type := V4L2_BUF_TYPE_VIDEO_CAPTURE\<rparr>;
          f = f\<lparr>fmt_pix := (fmt_pix f)\<lparr>width := 1920\<rparr>\<rparr>;
          f = f\<lparr>fmt_pix := (fmt_pix f)\<lparr>height := 1080\<rparr>\<rparr>;
          f = f\<lparr>fmt_pix := (fmt_pix f)\<lparr>pixelformat := V4L2_PIX_FMT_MJPEG\<rparr>\<rparr>;
          f = f\<lparr>fmt_pix := (fmt_pix f)\<lparr>colorspace := V4L2_COLORSPACE_REC709\<rparr>\<rparr>;
          r = vidioc_s_fmt k (device_fs cp) f;
          status_code = status r;
          s1 = set_errno status_code (err r)
                 (emit (Ioctl (device_fs cp) VIDIOC_S_FMT (Arg_format f) status_code
                          (Arg_format (out r))) s);
          s2 = s1\<lparr>camera_params := cp\<lparr>capture_format := out r\<rparr>\<rparr>
      in if status_code < 0 then Exited 1 (perror ''VIDIOC_S_FMT'' s2) else Running s2)"

definition request_buffer :: "kernel \<Rightarrow> state \<Rightarrow> result" where
  "request_buffer k s =
     (let cp = camera_params s;
          q = (buffer_request cp)\<lparr>req_type := V4L2_BUF_TYPE_VIDEO_CAPTURE\<rparr>;
          q = q\<lparr>req_memory := V4L2_MEMORY_MMAP\<rparr>;
          q = q\<lparr>req_count := 1\<rparr>;
          r = vidioc_reqbufs k (device_fs cp) q;
          status_code = status r;
          s1 = set_errno status_code (err r)
                 (emit (Ioctl (device_fs cp) VIDIOC_REQBUFS (Arg_requestbuffers q) status_code
                          (Arg_requestbuffers (out r))) s);
          s2 = s1\<lparr>camera_params := cp\<lparr>buffer_request := out r\<rparr>\<rparr>
      in if status_code < 0 then Exited 1 (perror ''VIDIOC_REQBUFS'' s2) else Running s2)"

definition allocate_buffer :: "kernel \<Rightarrow> state \<Rightarrow> result" where
  "allocate_buffer k s =
     (let cp = camera_params s;
          b = zero_buffer;
          b = b\<lparr>buf_type := V4L2_BUF_TYPE_VIDEO_CAPTURE\<rparr>;
          b = b\<lparr>buf_memory := V4L2_MEMORY_MMAP\<rparr>;
          b = b\<lparr>buf_index := 0\<rparr>;
          r = vidioc_querybuf k (device_fs cp) b;
          status_code = status r;
          s1 = set_errno status_code (err r)
                 (emit (Ioctl (device_fs cp) VIDIOC_QUERYBUF (Arg_buffer b) status_code
                          (Arg_buffer (out r))) s);
          cp1 = cp\<lparr>buffer := out r\<rparr>;
          s2 = s1\<lparr>camera_params := cp1\<rparr>
      in if status_code < 0
         then Exited 1 (perror (''Failure on VIDIOC_QUERYBUF, exiting...'' @ [CHR 0x0A]) s2)
         else
           (let (p, e) = sys_mmap k (buf_length (buffer cp1)) (PROT_READ OR PROT_WRITE)
                           MAP_SHARED (device_fs cp1) (m_offset (buffer cp1));
                s3 = emit (Mmap (buf_length (buffer cp1)) (PROT_READ OR PROT_WRITE)
                             MAP_SHARED (device_fs cp1) (m_offset (buffer cp1)) p) s2;
                s4 = s3\<lparr>camera_params := cp1\<lparr>buffer_start := p\<rparr>\<rparr>
            in if buffer_start (camera_params s4) = MAP_FAILED
               then Exited 1 (perror (''Failure on mmap, exiting...'' @ [CHR 0x0A])
                                (s4\<lparr>errno := e\<rparr>))
               else
                 (let s5 = s4\<lparr>region := map (stale k) [0..<unat (buf_length (buffer cp1))]\<rparr>
                  in Running (s5\<lparr>region := memset_region
                       (unat (buf_length (buffer (camera_params s5)))) (region s5)\<rparr>))))"

definition activate_streaming :: "kernel \<Rightarrow> state \<Rightarrow> result" where
  "activate_streaming k s =
     (let cp = camera_params s;
          b = zero_buffer;
          b = b\<lparr>buf_type := V4L2_BUF_TYPE_VIDEO_CAPTURE\<rparr>;
          b = b\<lparr>buf_memory := V4L2_MEMORY_MMAP\<rparr>;
          b = b\<lparr>buf_index := 0\<rparr>;
          r = vidioc_streamon k (device_fs cp) (buf_type b);
          status_code = status r;
          s1 = set_errno status_code (err r)
                 (emit (Ioctl (device_fs cp) VIDIOC_STREAMON (Arg_type (buf_type b)) status_code
                          (Arg_type (buf_type b))) s);
          s2 = s1\<lparr>camera_params := cp\<lparr>buffer := b\<rparr>\<rparr>
      in if status_code < 0 then Exited 1 (perror ''VIDIOC_STREAMON'' s2) else Running s2)"

definition get_frame :: "kernel \<Rightarrow> state \<Rightarrow> result" where
  "get_frame k s =
     (let cp = camera_params s;
          r = vidioc_qbuf k (device_fs cp) (buffer cp);
          status_code = status r;
          s1 = set_errno status_code (err r)
                 (emit (Ioctl (device_fs cp) VIDIOC_QBUF (Arg_buffer (buffer cp)) status_code
                          (Arg_buffer (out r))) s);
          cp1 = cp\<lparr>buffer := out r\<rparr>;
          s2 = s1\<lparr>camera_params := cp1\<rparr>
      in if status_code < 0 then Exited 1 (perror ''VIDIOC_QBUF'' s2)
         else
           (let r = vidioc_dqbuf k (device_fs cp1) (buffer cp1);
                status_code = status r;
                s3 = set_errno status_code (err r)
                       (emit (Ioctl (device_fs cp1) VIDIOC_DQBUF (Arg_buffer (buffer cp1))
                                status_code (Arg_buffer (out r))) s2);
                s4 = s3\<lparr>camera_params := cp1\<lparr>buffer := out r\<rparr>\<rparr>
            in if status_code < 0 then Exited 1 (perror ''VIDIOC_QBUF'' s4)
               else Running (s4\<lparr>region := fill_region (frame k) (region s4)\<rparr>)))"

definition deactivate_streaming :: "kernel \<Rightarrow> state \<Rightarrow> result" where
  "deactivate_streaming k s =
     (let cp = camera_params s;
          r = vidioc_streamoff k (device_fs cp) (buf_type (buffer cp));
          status_code = status r;
          s1 = set_errno status_code (err r)
                 (emit (Ioctl (device_fs cp) VIDIOC_STREAMOFF (Arg_type (buf_type (buffer cp)))
                          status_code (Arg_type (buf_type (buffer cp)))) s)
      in if status_code < 0 then Exited 1 (perror ''VIDIOC_STREAMOFF'' s1) else Running s1)"

definition save_to_image :: "kernel \<Rightarrow> state \<Rightarrow> result" where
  "save_to_image k s =
     (let (image_fd, s1) = c_open k IMAGE_CAPTURE_SAVE_PATH (O_WRONLY OR O_CREAT) s
      in if image_fd < 0 then Exited 1 (perror ''open'' s1)
         else
           (let (n, s2) = c_write k image_fd (buffer_start (camera_params s1))
                            (buf_length (buffer (camera_params s1))) s1
            in Running (c_close image_fd s2)))"

definition main :: "kernel \<Rightarrow> state \<Rightarrow> int \<times> state" where
  "main k s =
     (case
        and_then (and_then (and_then (and_then (and_then (and_then (and_then (and_then
          (open_camera_device k s)
          (set_video_format k))
          (request_buffer k))
          (allocate_buffer k))
          (activate_streaming k))
          (get_frame k))
          (deactivate_streaming k))
          (save_to_image k))
          close_camera_device
      of Exited c s' \<Rightarrow> (c, s')
       | Running s' \<Rightarrow>
           (0, emit (Stdout (''Image capture successful, saved to '' @ IMAGE_CAPTURE_SAVE_PATH
                              @ [CHR 0x0A])) s'))"

subsection \<open>Reading a run\<close>

text \<open>
  A step of the session has failed when its call returned what the C library documents
  as failure: a negative descriptor from \<open>open\<close>, a negative status from
  \<open>ioctl\<close>, \<open>MAP_FAILED\<close> from \<open>mmap\<close>. \<open>write\<close> and \<open>close\<close> are not
  counted here: the value \<open>write\<close> returns is looked at on its own (claim C6), and
  \<open>close\<close> is recorded without its result because the program never reads it.
\<close>

fun step_failed :: "event \<Rightarrow> bool" where
  "step_failed (Open path flags fd) = (fd < 0)"
| "step_failed (Ioctl fd rq a st a') = (st < 0)"
| "step_failed (Mmap len prot flags fd off p) = (p = MAP_FAILED)"
| "step_failed (Write fd src n w) = False"
| "step_failed (Close fd) = False"
| "step_failed (Stderr m e) = False"
| "step_failed (Stdout m) = False"

fun is_ioctl :: "event \<Rightarrow> bool" where
  "is_ioctl (Ioctl fd rq a st a') = True"
| "is_ioctl (Open path flags fd) = False"
| "is_ioctl (Mmap len prot flags fd off p) = False"
| "is_ioctl (Write fd src n w) = False"
| "is_ioctl (Close fd) = False"
| "is_ioctl (Stderr m e) = False"
| "is_ioctl (Stdout m) = False"

text \<open>The lines a run left on standard error, and the requests that failed in it.\<close>

fun diagnostics :: "event list \<Rightarrow> (string \<times> nat) list" where
  "diagnostics [] = []"
| "diagnostics (Stderr m e # es) = (m, e) # diagnostics es"
| "diagnostics (ev # es) = diagnostics es"

fun failed_requests :: "event list \<Rightarrow> ioctl_request list" where
  "failed_requests [] = []"
| "failed_requests (Ioctl fd rq a st a' # es) =
     (if st < 0 then rq # failed_requests es else failed_requests es)"
| "failed_requests (ev # es) = failed_requests es"

text \<open>The requests of a run that carried a buffer descriptor, each with its index.\<close>

fun buffer_indices :: "event list \<Rightarrow> (ioctl_request \<times> u32) list" where
  "buffer_indices [] = []"
| "buffer_indices (Ioctl fd rq (Arg_buffer b) st a' # es) = (rq, buf_index b) # buffer_indices es"
| "buffer_indices (ev # es) = buffer_indices es"

fun is_running :: "result \<Rightarrow> bool" where
  "is_running (Running s) = True"
| "is_running (Exited c s) = False"

fun the_state :: "result \<Rightarrow> state" where
  "the_state (Running s) = s"
| "the_state (Exited c s) = s"

subsection \<open>Sample kernels\<close>

text \<open>
  A driver that accepts every request: descriptor 3 for the device and 4 for the image,
  a 4-byte buffer at offset 0, and a 3-byte frame on dequeue.
\<close>

definition demo_kernel :: kernel where
  "demo_kernel =
     \<lparr>sys_open = (\<lambda>path flags. \<lparr>status = (if path = CAMERA_DEV_PATH then 3 else 4), err = 0\<rparr>),
      vidioc_s_fmt = (\<lambda>fd f. \<lparr>status = 0, err = 0, out = f\<rparr>),
      vidioc_reqbufs = (\<lambda>fd q. \<lparr>status = 0, err = 0, out = q\<rparr>),
      vidioc_querybuf = (\<lambda>fd b. \<lparr>status = 0, err = 0, out = b\<lparr>m_offset := 0, buf_length := 4\<rparr>\<rparr>),
      sys_mmap = (\<lambda>len prot flags fd off. (Addr 4096, 0)),
      stale = (\<lambda>i. 0xAA),
      vidioc_streamon = (\<lambda>fd t. \<lparr>status = 0, err = 0\<rparr>),
      vidioc_qbuf = (\<lambda>fd b. \<lparr>status = 0, err = 0, out = b\<rparr>),
      vidioc_dqbuf = (\<lambda>fd b. \<lparr>status = 0, err = 0, out = b\<lparr>bytesused := 3, buf_length := 3\<rparr>\<rparr>),
      frame = [0xFF, 0xD8, 0xFF],
      vidioc_streamoff = (\<lambda>fd t. \<lparr>status = 0, err = 0\<rparr>),
      beyond = (\<lambda>i. 0x55),
      sys_write = (\<lambda>fd bs. \<lparr>status = int (length bs), err = 0\<rparr>)\<rparr>"

text \<open>The same driver with one call failing (the error numbers are those of errno.h).\<close>

definition no_device_kernel :: kernel where
  "no_device_kernel = demo_kernel\<lparr>sys_open := (\<lambda>path flags. \<lparr>status = - 1, err = 2\<rparr>)\<rparr>"

definition querybuf_fails_kernel :: kernel where
  "querybuf_fails_kernel =
     demo_kernel\<lparr>vidioc_querybuf := (\<lambda>fd b. \<lparr>status = - 1, err = 22, out = b\<rparr>)\<rparr>"

definition qbuf_fails_kernel :: kernel where
  "qbuf_fails_kernel =
     demo_kernel\<lparr>vidioc_qbuf := (\<lambda>fd b. \<lparr>status = - 1, err = 5, out = b\<rparr>)\<rparr>"

definition dqbuf_fails_kernel :: kernel where
  "dqbuf_fails_kernel =
     demo_kernel\<lparr>vidioc_dqbuf := (\<lambda>fd b. \<lparr>status = - 1, err = 5, out = b\<rparr>)\<rparr>"

definition write_fails_kernel :: kernel where
  "write_fails_kernel =
     demo_kernel\<lparr>sys_write := (\<lambda>fd bs. \<lparr>status = - 1, err = 28\<rparr>)\<rparr>"


text \<open>
  A driver that grants four buffers for the one requested and returns the enqueued
  descriptor with index 3.
\<close>

definition reindex_kernel :: kernel where
  "reindex_kernel =
     demo_kernel\<lparr>vidioc_reqbufs := (\<lambda>fd q. \<lparr>status = 0, err = 0, out = q\<lparr>req_count := 4\<rparr>\<rparr>),
       vidioc_qbuf := (\<lambda>fd b. \<lparr>status = 0, err = 0, out = b\<lparr>buf_index := 3\<rparr>\<rparr>)\<rparr>"

definition no_files :: "string \<Rightarrow> u8 list option" where
  "no_files = (\<lambda>path. None)"

definition old_image :: "string \<Rightarrow> u8 list option" where
  "old_image = (\<lambda>path. if path = IMAGE_CAPTURE_SAVE_PATH then Some [1, 2, 3, 4, 5] else None)"


section \<open>What each function does to the state\<close>

text \<open>
  One pair of lemmas per C function: what the trace and the state look like when the
  function returns, and when it exits.
\<close>

lemmas sys_defs = c_open_def c_close_def c_write_def emit_def set_errno_def perror_def

lemma paths_differ: "CAMERA_DEV_PATH \<noteq> IMAGE_CAPTURE_SAVE_PATH"
  by (simp add: CAMERA_DEV_PATH_def IMAGE_CAPTURE_SAVE_PATH_def)

lemma sink_flags:
  "(O_WRONLY OR O_CREAT) AND O_CREAT \<noteq> 0"
  "(O_WRONLY OR O_CREAT) AND O_TRUNC = 0"
  "(O_WRONLY OR O_CREAT) AND O_APPEND = 0"
  by (simp_all add: O_WRONLY_def O_CREAT_def O_TRUNC_def O_APPEND_def)

lemma open_camera_device_Running:
  assumes "open_camera_device k s = Running s'"
  shows "0 \<le> status (sys_open k CAMERA_DEV_PATH O_RDWR)
    \<and> trace s' = trace s @ [Open CAMERA_DEV_PATH O_RDWR (status (sys_open k CAMERA_DEV_PATH O_RDWR))]
    \<and> device_fs (camera_params s') = status (sys_open k CAMERA_DEV_PATH O_RDWR)
    \<and> fdtab s' = (fdtab s)(status (sys_open k CAMERA_DEV_PATH O_RDWR) \<mapsto> (CAMERA_DEV_PATH, O_RDWR))
    \<and> files s' IMAGE_CAPTURE_SAVE_PATH = files s IMAGE_CAPTURE_SAVE_PATH
    \<and> region s' = region s
    \<and> buffer (camera_params s') = buffer (camera_params s)
    \<and> buffer_start (camera_params s') = buffer_start (camera_params s)
    \<and> buffer_request (camera_params s') = buffer_request (camera_params s)
    \<and> capture_format (camera_params s') = capture_format (camera_params s)"
  using assms paths_differ
  by (auto simp: open_camera_device_def sys_defs Let_def split: if_splits prod.splits)

lemma open_camera_device_Exited:
  assumes "open_camera_device k s = Exited c s'"
  shows "c = 1 \<and> status (sys_open k CAMERA_DEV_PATH O_RDWR) < 0
    \<and> (\<exists>m e. trace s' = trace s @
          [Open CAMERA_DEV_PATH O_RDWR (status (sys_open k CAMERA_DEV_PATH O_RDWR)), Stderr m e])
    \<and> fdtab s' = fdtab s"
  using assms
  by (auto simp: open_camera_device_def sys_defs Let_def split: if_splits prod.splits)

lemma set_video_format_Running:
  assumes "set_video_format k s = Running s'"
  shows "\<exists>st f'. 0 \<le> st
    \<and> trace s' = trace s @ [Ioctl (device_fs (camera_params s)) VIDIOC_S_FMT
         (Arg_format ((capture_format (camera_params s))\<lparr>fmt_type := V4L2_BUF_TYPE_VIDEO_CAPTURE,
            fmt_pix := (fmt_pix (capture_format (camera_params s)))\<lparr>width := 1920, height := 1080,
              pixelformat := V4L2_PIX_FMT_MJPEG, colorspace := V4L2_COLORSPACE_REC709\<rparr>\<rparr>))
         st (Arg_format f')]
    \<and> device_fs (camera_params s') = device_fs (camera_params s)
    \<and> fdtab s' = fdtab s \<and> files s' = files s \<and> region s' = region s
    \<and> buffer (camera_params s') = buffer (camera_params s)
    \<and> buffer_start (camera_params s') = buffer_start (camera_params s)
    \<and> buffer_request (camera_params s') = buffer_request (camera_params s)"
  using assms
  by (auto simp: set_video_format_def sys_defs Let_def split: if_splits)

lemma set_video_format_Exited:
  assumes "set_video_format k s = Exited c s'"
  shows "c = 1 \<and> (\<exists>st f' m e. st < 0
    \<and> trace s' = trace s @ [Ioctl (device_fs (camera_params s)) VIDIOC_S_FMT
         (Arg_format ((capture_format (camera_params s))\<lparr>fmt_type := V4L2_BUF_TYPE_VIDEO_CAPTURE,
            fmt_pix := (fmt_pix (capture_format (camera_params s)))\<lparr>width := 1920, height := 1080,
              pixelformat := V4L2_PIX_FMT_MJPEG, colorspace := V4L2_COLORSPACE_REC709\<rparr>\<rparr>))
         st (Arg_format f'), Stderr m e])
    \<and> fdtab s' = fdtab s"
  using assms
  by (auto simp: set_video_format_def sys_defs Let_def split: if_splits)

lemma request_buffer_Running:
  assumes "request_buffer k s = Running s'"
  shows "\<exists>st q'. 0 \<le> st
    \<and> trace s' = trace s @ [Ioctl (device_fs (camera_params s)) VIDIOC_REQBUFS
         (Arg_requestbuffers ((buffer_request (camera_params s))\<lparr>req_type := V4L2_BUF_TYPE_VIDEO_CAPTURE,
            req_memory := V4L2_MEMORY_MMAP, req_count := 1\<rparr>))
         st (Arg_requestbuffers q')]
    \<and> device_fs (camera_params s') = device_fs (camera_params s)
    \<and> fdtab s' = fdtab s \<and> files s' = files s \<and> region s' = region s
    \<and> buffer (camera_params s') = buffer (camera_params s)
    \<and> buffer_start (camera_params s') = buffer_start (camera_params s)"
  using assms
  by (auto simp: request_buffer_def sys_defs Let_def split: if_splits)

lemma request_buffer_Exited:
  assumes "request_buffer k s = Exited c s'"
  shows "c = 1 \<and> (\<exists>st q' m e. st < 0
    \<and> trace s' = trace s @ [Ioctl (device_fs (camera_params s)) VIDIOC_REQBUFS
         (Arg_requestbuffers ((buffer_request (camera_params s))\<lparr>req_type := V4L2_BUF_TYPE_VIDEO_CAPTURE,
            req_memory := V4L2_MEMORY_MMAP, req_count := 1\<rparr>))
         st (Arg_requestbuffers q'), Stderr m e])
    \<and> fdtab s' = fdtab s"
  using assms
  by (auto simp: request_buffer_def sys_defs Let_def split: if_splits)

lemma allocate_buffer_Running:
  assumes "allocate_buffer k s = Running s'"
  shows "\<exists>st p. 0 \<le> st \<and> p \<noteq> MAP_FAILED
    \<and> buffer (camera_params s') = out (vidioc_querybuf k (device_fs (camera_params s))
         (zero_buffer\<lparr>buf_type := V4L2_BUF_TYPE_VIDEO_CAPTURE, buf_memory := V4L2_MEMORY_MMAP,
            buf_index := 0\<rparr>))
    \<and> trace s' = trace s @ [Ioctl (device_fs (camera_params s)) VIDIOC_QUERYBUF
         (Arg_buffer (zero_buffer\<lparr>buf_type := V4L2_BUF_TYPE_VIDEO_CAPTURE,
            buf_memory := V4L2_MEMORY_MMAP, buf_index := 0\<rparr>))
         st (Arg_buffer (buffer (camera_params s'))),
         Mmap (buf_length (buffer (camera_params s'))) (PROT_READ OR PROT_WRITE) MAP_SHARED
           (device_fs (camera_params s)) (m_offset (buffer (camera_params s'))) p]
    \<and> buffer_start (camera_params s') = p
    \<and> region s' = replicate (unat (buf_length (buffer (camera_params s')))) 0
    \<and> device_fs (camera_params s') = device_fs (camera_params s)
    \<and> fdtab s' = fdtab s \<and> files s' = files s"
  using assms
  by (auto simp: allocate_buffer_def sys_defs Let_def memset_region_def split: if_splits prod.splits)

lemma allocate_buffer_Exited:
  assumes "allocate_buffer k s = Exited c s'"
  shows "c = 1 \<and> (\<exists>st bq m e.
      (st < 0 \<and> trace s' = trace s @ [Ioctl (device_fs (camera_params s)) VIDIOC_QUERYBUF
         (Arg_buffer (zero_buffer\<lparr>buf_type := V4L2_BUF_TYPE_VIDEO_CAPTURE,
            buf_memory := V4L2_MEMORY_MMAP, buf_index := 0\<rparr>))
         st (Arg_buffer bq), Stderr m e])
    \<or> (0 \<le> st \<and> trace s' = trace s @ [Ioctl (device_fs (camera_params s)) VIDIOC_QUERYBUF
         (Arg_buffer (zero_buffer\<lparr>buf_type := V4L2_BUF_TYPE_VIDEO_CAPTURE,
            buf_memory := V4L2_MEMORY_MMAP, buf_index := 0\<rparr>))
         st (Arg_buffer bq),
         Mmap (buf_length bq) (PROT_READ OR PROT_WRITE) MAP_SHARED
           (device_fs (camera_params s)) (m_offset bq) MAP_FAILED, Stderr m e]))
    \<and> fdtab s' = fdtab s \<and> device_fs (camera_params s') = device_fs (camera_params s)"
  using assms
  by (auto simp: allocate_buffer_def sys_defs Let_def split: if_splits prod.splits)

lemma activate_streaming_buffer:
  assumes "activate_streaming k s = Running s' \<or> activate_streaming k s = Exited c s'"
  shows "buffer (camera_params s') = zero_buffer\<lparr>buf_type := V4L2_BUF_TYPE_VIDEO_CAPTURE,
            buf_memory := V4L2_MEMORY_MMAP, buf_index := 0\<rparr>"
  using assms
  by (auto simp: activate_streaming_def sys_defs Let_def split: if_splits)

lemma activate_streaming_Running:
  assumes "activate_streaming k s = Running s'"
  shows "\<exists>st. 0 \<le> st
    \<and> trace s' = trace s @ [Ioctl (device_fs (camera_params s)) VIDIOC_STREAMON
         (Arg_type V4L2_BUF_TYPE_VIDEO_CAPTURE) st (Arg_type V4L2_BUF_TYPE_VIDEO_CAPTURE)]
    \<and> buffer (camera_params s') = zero_buffer\<lparr>buf_type := V4L2_BUF_TYPE_VIDEO_CAPTURE,
            buf_memory := V4L2_MEMORY_MMAP, buf_index := 0\<rparr>
    \<and> device_fs (camera_params s') = device_fs (camera_params s)
    \<and> fdtab s' = fdtab s \<and> files s' = files s \<and> region s' = region s
    \<and> buffer_start (camera_params s') = buffer_start (camera_params s)"
  using assms
  by (auto simp: activate_streaming_def sys_defs Let_def split: if_splits)

lemma activate_streaming_Exited:
  assumes "activate_streaming k s = Exited c s'"
  shows "c = 1 \<and> (\<exists>st m e. st < 0
    \<and> trace s' = trace s @ [Ioctl (device_fs (camera_params s)) VIDIOC_STREAMON
         (Arg_type V4L2_BUF_TYPE_VIDEO_CAPTURE) st (Arg_type V4L2_BUF_TYPE_VIDEO_CAPTURE),
         Stderr m e])
    \<and> fdtab s' = fdtab s"
  using assms
  by (auto simp: activate_streaming_def sys_defs Let_def split: if_splits)

lemma get_frame_Running:
  assumes "get_frame k s = Running s'"
  shows "\<exists>st st'. 0 \<le> st \<and> 0 \<le> st'
    \<and> trace s' = trace s @ [Ioctl (device_fs (camera_params s)) VIDIOC_QBUF
         (Arg_buffer (buffer (camera_params s))) st
         (Arg_buffer (out (vidioc_qbuf k (device_fs (camera_params s)) (buffer (camera_params s))))),
         Ioctl (device_fs (camera_params s)) VIDIOC_DQBUF
         (Arg_buffer (out (vidioc_qbuf k (device_fs (camera_params s)) (buffer (camera_params s)))))
         st' (Arg_buffer (buffer (camera_params s')))]
    \<and> device_fs (camera_params s') = device_fs (camera_params s)
    \<and> fdtab s' = fdtab s \<and> files s' = files s
    \<and> region s' = fill_region (frame k) (region s)
    \<and> buffer_start (camera_params s') = buffer_start (camera_params s)"
  using assms
  by (auto simp: get_frame_def sys_defs Let_def split: if_splits)

lemma get_frame_Exited:
  assumes "get_frame k s = Exited c s'"
  shows "c = 1 \<and> (\<exists>st st' b m e.
      (st < 0 \<and> trace s' = trace s @ [Ioctl (device_fs (camera_params s)) VIDIOC_QBUF
         (Arg_buffer (buffer (camera_params s))) st
         (Arg_buffer (out (vidioc_qbuf k (device_fs (camera_params s)) (buffer (camera_params s))))),
         Stderr m e])
    \<or> (0 \<le> st \<and> st' < 0 \<and> trace s' = trace s @ [Ioctl (device_fs (camera_params s)) VIDIOC_QBUF
         (Arg_buffer (buffer (camera_params s))) st
         (Arg_buffer (out (vidioc_qbuf k (device_fs (camera_params s)) (buffer (camera_params s))))),
         Ioctl (device_fs (camera_params s)) VIDIOC_DQBUF
         (Arg_buffer (out (vidioc_qbuf k (device_fs (camera_params s)) (buffer (camera_params s)))))
         st' (Arg_buffer b), Stderr m e]))
    \<and> fdtab s' = fdtab s"
  using assms
  by (auto simp: get_frame_def sys_defs Let_def split: if_splits)

lemma deactivate_streaming_Running:
  assumes "deactivate_streaming k s = Running s'"
  shows "\<exists>st. 0 \<le> st
    \<and> trace s' = trace s @ [Ioctl (device_fs (camera_params s)) VIDIOC_STREAMOFF
         (Arg_type (buf_type (buffer (camera_params s)))) st
         (Arg_type (buf_type (buffer (camera_params s))))]
    \<and> device_fs (camera_params s') = device_fs (camera_params s)
    \<and> fdtab s' = fdtab s \<and> files s' = files s \<and> region s' = region s
    \<and> buffer (camera_params s') = buffer (camera_params s)
    \<and> buffer_start (camera_params s') = buffer_start (camera_params s)"
  using assms
  by (auto simp: deactivate_streaming_def sys_defs Let_def split: if_splits)

lemma deactivate_streaming_Exited:
  assumes "deactivate_streaming k s = Exited c s'"
  shows "c = 1 \<and> (\<exists>st m e. st < 0
    \<and> trace s' = trace s @ [Ioctl (device_fs (camera_params s)) VIDIOC_STREAMOFF
         (Arg_type (buf_type (buffer (camera_params s)))) st
         (Arg_type (buf_type (buffer (camera_params s)))), Stderr m e])
    \<and> fdtab s' = fdtab s"
  using assms
  by (auto simp: deactivate_streaming_def sys_defs Let_def split: if_splits)

lemma save_to_image_Running:
  assumes "save_to_image k s = Running s'"
  shows "\<exists>ifd w. 0 \<le> ifd
    \<and> trace s' = trace s @ [Open IMAGE_CAPTURE_SAVE_PATH (O_WRONLY OR O_CREAT) ifd,
         Write ifd (buffer_start (camera_params s)) (buf_length (buffer (camera_params s))) w,
         Close ifd]
    \<and> files s' IMAGE_CAPTURE_SAVE_PATH =
         Some (put_bytes 0
                 (take (nat w) (read_memory k (region s) (unat (buf_length (buffer (camera_params s))))))
                 (case files s IMAGE_CAPTURE_SAVE_PATH of None \<Rightarrow> [] | Some old \<Rightarrow> old))
    \<and> device_fs (camera_params s') = device_fs (camera_params s)
    \<and> fdtab s' = (fdtab s)(ifd := None) \<and> region s' = region s
    \<and> buffer (camera_params s') = buffer (camera_params s)
    \<and> buffer_start (camera_params s') = buffer_start (camera_params s)"
  using assms sink_flags
  by (auto simp: save_to_image_def sys_defs Let_def open_file_def put_bytes_def
      split: if_splits prod.splits option.splits)

lemma save_to_image_Exited:
  assumes "save_to_image k s = Exited c s'"
  shows "c = 1 \<and> (\<exists>ifd m e. ifd < 0
    \<and> trace s' = trace s @ [Open IMAGE_CAPTURE_SAVE_PATH (O_WRONLY OR O_CREAT) ifd, Stderr m e])
    \<and> fdtab s' = fdtab s"
  using assms
  by (auto simp: save_to_image_def sys_defs Let_def split: if_splits prod.splits)

lemma close_camera_device_Running:
  assumes "close_camera_device s = Running s'"
  shows "trace s' = trace s @ [Close (device_fs (camera_params s))]
    \<and> fdtab s' = (fdtab s)(device_fs (camera_params s) := None)
    \<and> files s' = files s \<and> region s' = region s
    \<and> buffer (camera_params s') = buffer (camera_params s)
    \<and> buffer_start (camera_params s') = buffer_start (camera_params s)"
  using assms
  by (auto simp: close_camera_device_def sys_defs)

lemma close_camera_device_not_Exited: "close_camera_device s \<noteq> Exited c s'"
  by (simp add: close_camera_device_def)


section \<open>The outcomes of a run\<close>

text \<open>
  \<open>main\<close> stops at the first function that exits. A run from the initial state
  therefore ends in one of eleven ways: ten failures, each with the calls made so far
  followed by one diagnostic, or the complete session.
\<close>

lemma main_cases:
  assumes "main k s0 = (c, s)"
  shows "(open_camera_device k s0 = Exited c s
    \<or> (\<exists>s1. open_camera_device k s0 = Running s1 \<and>
    (set_video_format k s1 = Exited c s
    \<or> (\<exists>s2. set_video_format k s1 = Running s2 \<and>
    (request_buffer k s2 = Exited c s
    \<or> (\<exists>s3. request_buffer k s2 = Running s3 \<and>
    (allocate_buffer k s3 = Exited c s
    \<or> (\<exists>s4. allocate_buffer k s3 = Running s4 \<and>
    (activate_streaming k s4 = Exited c s
    \<or> (\<exists>s5. activate_streaming k s4 = Running s5 \<and>
    (get_frame k s5 = Exited c s
    \<or> (\<exists>s6. get_frame k s5 = Running s6 \<and>
    (deactivate_streaming k s6 = Exited c s
    \<or> (\<exists>s7. deactivate_streaming k s6 = Running s7 \<and>
    (save_to_image k s7 = Exited c s
    \<or> (\<exists>s8. save_to_image k s7 = Running s8 \<and>
    (\<exists>s9. close_camera_device s8 = Running s9 \<and> c = 0
      \<and> s = emit (Stdout (''Image capture successful, saved to '' @ IMAGE_CAPTURE_SAVE_PATH @ [CHR 0x0A])) s9)))))))))))))))))"
  using assms close_camera_device_not_Exited
  by (auto simp: main_def and_then_def split: result.splits)

lemma main_outcomes:
  assumes "main k (initial_state fs) = (c, s)"
  shows "(\<exists>fd m e.
       c = 1
     \<and> fd < 0
     \<and> trace s = [Open CAMERA_DEV_PATH O_RDWR fd,
         Stderr m e]
     \<and> fdtab s = (\<lambda>d. None))
   \<or> (\<exists>fd st1 f1 m e.
       c = 1
     \<and> 0 \<le> fd
     \<and> st1 < 0
     \<and> trace s = [Open CAMERA_DEV_PATH O_RDWR fd,
         Ioctl fd VIDIOC_S_FMT (Arg_format (zero_format\<lparr>fmt_type := V4L2_BUF_TYPE_VIDEO_CAPTURE,
            fmt_pix := zero_pix_format\<lparr>width := 1920, height := 1080,
              pixelformat := V4L2_PIX_FMT_MJPEG, colorspace := V4L2_COLORSPACE_REC709\<rparr>\<rparr>)) st1 (Arg_format f1),
         Stderr m e]
     \<and> fdtab s = (\<lambda>d. None)(fd \<mapsto> (CAMERA_DEV_PATH, O_RDWR)))
   \<or> (\<exists>fd st1 f1 st2 q1 m e.
       c = 1
     \<and> 0 \<le> fd
     \<and> 0 \<le> st1
     \<and> st2 < 0
     \<and> trace s = [Open CAMERA_DEV_PATH O_RDWR fd,
         Ioctl fd VIDIOC_S_FMT (Arg_format (zero_format\<lparr>fmt_type := V4L2_BUF_TYPE_VIDEO_CAPTURE,
            fmt_pix := zero_pix_format\<lparr>width := 1920, height := 1080,
              pixelformat := V4L2_PIX_FMT_MJPEG, colorspace := V4L2_COLORSPACE_REC709\<rparr>\<rparr>)) st1 (Arg_format f1),
         Ioctl fd VIDIOC_REQBUFS (Arg_requestbuffers (zero_requestbuffers\<lparr>req_type := V4L2_BUF_TYPE_VIDEO_CAPTURE,
            req_memory := V4L2_MEMORY_MMAP, req_count := 1\<rparr>)) st2 (Arg_requestbuffers q1),
         Stderr m e]
     \<and> fdtab s = (\<lambda>d. None)(fd \<mapsto> (CAMERA_DEV_PATH, O_RDWR)))
   \<or> (\<exists>fd st1 f1 st2 q1 st3 bq m e.
       c = 1
     \<and> 0 \<le> fd
     \<and> 0 \<le> st1
     \<and> 0 \<le> st2
     \<and> st3 < 0
     \<and> trace s = [Open CAMERA_DEV_PATH O_RDWR fd,
         Ioctl fd VIDIOC_S_FMT (Arg_format (zero_format\<lparr>fmt_type := V4L2_BUF_TYPE_VIDEO_CAPTURE,
            fmt_pix := zero_pix_format\<lparr>width := 1920, height := 1080,
              pixelformat := V4L2_PIX_FMT_MJPEG, colorspace := V4L2_COLORSPACE_REC709\<rparr>\<rparr>)) st1 (Arg_format f1),
         Ioctl fd VIDIOC_REQBUFS (Arg_requestbuffers (zero_requestbuffers\<lparr>req_type := V4L2_BUF_TYPE_VIDEO_CAPTURE,
            req_memory := V4L2_MEMORY_MMAP, req_count := 1\<rparr>)) st2 (Arg_requestbuffers q1),
         Ioctl fd VIDIOC_QUERYBUF (Arg_buffer (zero_buffer\<lparr>buf_type := V4L2_BUF_TYPE_VIDEO_CAPTURE,
            buf_memory := V4L2_MEMORY_MMAP, buf_index := 0\<rparr>)) st3 (Arg_buffer bq),
         Stderr m e]
     \<and> fdtab s = (\<lambda>d. None)(fd \<mapsto> (CAMERA_DEV_PATH, O_RDWR)))
   \<or> (\<exists>fd st1 f1 st2 q1 st3 bq m e.
       c = 1
     \<and> 0 \<le> fd
     \<and> 0 \<le> st1
     \<and> 0 \<le> st2
     \<and> 0 \<le> st3
     \<and> trace s = [Open CAMERA_DEV_PATH O_RDWR fd,
         Ioctl fd VIDIOC_S_FMT (Arg_format (zero_format\<lparr>fmt_type := V4L2_BUF_TYPE_VIDEO_CAPTURE,
            fmt_pix := zero_pix_format\<lparr>width := 1920, height := 1080,
              pixelformat := V4L2_PIX_FMT_MJPEG, colorspace := V4L2_COLORSPACE_REC709\<rparr>\<rparr>)) st1 (Arg_format f1),
         Ioctl fd VIDIOC_REQBUFS (Arg_requestbuffers (zero_requestbuffers\<lparr>req_type := V4L2_BUF_TYPE_VIDEO_CAPTURE,
            req_memory := V4L2_MEMORY_MMAP, req_count := 1\<rparr>)) st2 (Arg_requestbuffers q1),
         Ioctl fd VIDIOC_QUERYBUF (Arg_buffer (zero_buffer\<lparr>buf_type := V4L2_BUF_TYPE_VIDEO_CAPTURE,
            buf_memory := V4L2_MEMORY_MMAP, buf_index := 0\<rparr>)) st3 (Arg_buffer bq),
         Mmap (buf_length bq) (PROT_READ OR PROT_WRITE) MAP_SHARED fd (m_offset bq) MAP_FAILED,
         Stderr m e]
     \<and> fdtab s = (\<lambda>d. None)(fd \<mapsto> (CAMERA_DEV_PATH, O_RDWR)))
   \<or> (\<exists>fd st1 f1 st2 q1 st3 bq p st4 m e.
       c = 1
     \<and> 0 \<le> fd
     \<and> 0 \<le> st1
     \<and> 0 \<le> st2
     \<and> 0 \<le> st3
     \<and> p \<noteq> MAP_FAILED
     \<and> st4 < 0
     \<and> trace s = [Open CAMERA_DEV_PATH O_RDWR fd,
         Ioctl fd VIDIOC_S_FMT (Arg_format (zero_format\<lparr>fmt_type := V4L2_BUF_TYPE_VIDEO_CAPTURE,
            fmt_pix := zero_pix_format\<lparr>width := 1920, height := 1080,
              pixelformat := V4L2_PIX_FMT_MJPEG, colorspace := V4L2_COLORSPACE_REC709\<rparr>\<rparr>)) st1 (Arg_format f1),
         Ioctl fd VIDIOC_REQBUFS (Arg_requestbuffers (zero_requestbuffers\<lparr>req_type := V4L2_BUF_TYPE_VIDEO_CAPTURE,
            req_memory := V4L2_MEMORY_MMAP, req_count := 1\<rparr>)) st2 (Arg_requestbuffers q1),
         Ioctl fd VIDIOC_QUERYBUF (Arg_buffer (zero_buffer\<lparr>buf_type := V4L2_BUF_TYPE_VIDEO_CAPTURE,
            buf_memory := V4L2_MEMORY_MMAP, buf_index := 0\<rparr>)) st3 (Arg_buffer bq),
         Mmap (buf_length bq) (PROT_READ OR PROT_WRITE) MAP_SHARED fd (m_offset bq) p,
         Ioctl fd VIDIOC_STREAMON (Arg_type V4L2_BUF_TYPE_VIDEO_CAPTURE) st4 (Arg_type V4L2_BUF_TYPE_VIDEO_CAPTURE),
         Stderr m e]
     \<and> fdtab s = (\<lambda>d. None)(fd \<mapsto> (CAMERA_DEV_PATH, O_RDWR)))
   \<or> (\<exists>fd st1 f1 st2 q1 st3 bq p st4 st5 b1 m e.
       c = 1
     \<and> 0 \<le> fd
     \<and> 0 \<le> st1
     \<and> 0 \<le> st2
     \<and> 0 \<le> st3
     \<and> p \<noteq> MAP_FAILED
     \<and> 0 \<le> st4
     \<and> st5 < 0
     \<and> trace s = [Open CAMERA_DEV_PATH O_RDWR fd,
         Ioctl fd VIDIOC_S_FMT (Arg_format (zero_format\<lparr>fmt_type := V4L2_BUF_TYPE_VIDEO_CAPTURE,
            fmt_pix := zero_pix_format\<lparr>width := 1920, height := 1080,
              pixelformat := V4L2_PIX_FMT_MJPEG, colorspace := V4L2_COLORSPACE_REC709\<rparr>\<rparr>)) st1 (Arg_format f1),
         Ioctl fd VIDIOC_REQBUFS (Arg_requestbuffers (zero_requestbuffers\<lparr>req_type := V4L2_BUF_TYPE_VIDEO_CAPTURE,
            req_memory := V4L2_MEMORY_MMAP, req_count := 1\<rparr>)) st2 (Arg_requestbuffers q1),
         Ioctl fd VIDIOC_QUERYBUF (Arg_buffer (zero_buffer\<lparr>buf_type := V4L2_BUF_TYPE_VIDEO_CAPTURE,
            buf_memory := V4L2_MEMORY_MMAP, buf_index := 0\<rparr>)) st3 (Arg_buffer bq),
         Mmap (buf_length bq) (PROT_READ OR PROT_WRITE) MAP_SHARED fd (m_offset bq) p,
         Ioctl fd VIDIOC_STREAMON (Arg_type V4L2_BUF_TYPE_VIDEO_CAPTURE) st4 (Arg_type V4L2_BUF_TYPE_VIDEO_CAPTURE),
         Ioctl fd VIDIOC_QBUF (Arg_buffer (zero_buffer\<lparr>buf_type := V4L2_BUF_TYPE_VIDEO_CAPTURE,
            buf_memory := V4L2_MEMORY_MMAP, buf_index := 0\<rparr>)) st5 (Arg_buffer b1),
         Stderr m e]
     \<and> fdtab s = (\<lambda>d. None)(fd \<mapsto> (CAMERA_DEV_PATH, O_RDWR))
     \<and> b1 = out (vidioc_qbuf k fd (zero_buffer\<lparr>buf_type := V4L2_BUF_TYPE_VIDEO_CAPTURE,
            buf_memory := V4L2_MEMORY_MMAP, buf_index := 0\<rparr>)))
   \<or> (\<exists>fd st1 f1 st2 q1 st3 bq p st4 st5 b1 st6 b2 m e.
       c = 1
     \<and> 0 \<le> fd
     \<and> 0 \<le> st1
     \<and> 0 \<le> st2
     \<and> 0 \<le> st3
     \<and> p \<noteq> MAP_FAILED
     \<and> 0 \<le> st4
     \<and> 0 \<le> st5
     \<and> st6 < 0
     \<and> trace s = [Open CAMERA_DEV_PATH O_RDWR fd,
         Ioctl fd VIDIOC_S_FMT (Arg_format (zero_format\<lparr>fmt_type := V4L2_BUF_TYPE_VIDEO_CAPTURE,
            fmt_pix := zero_pix_format\<lparr>width := 1920, height := 1080,
              pixelformat := V4L2_PIX_FMT_MJPEG, colorspace := V4L2_COLORSPACE_REC709\<rparr>\<rparr>)) st1 (Arg_format f1),
         Ioctl fd VIDIOC_REQBUFS (Arg_requestbuffers (zero_requestbuffers\<lparr>req_type := V4L2_BUF_TYPE_VIDEO_CAPTURE,
            req_memory := V4L2_MEMORY_MMAP, req_count := 1\<rparr>)) st2 (Arg_requestbuffers q1),
         Ioctl fd VIDIOC_QUERYBUF (Arg_buffer (zero_buffer\<lparr>buf_type := V4L2_BUF_TYPE_VIDEO_CAPTURE,
            buf_memory := V4L2_MEMORY_MMAP, buf_index := 0\<rparr>)) st3 (Arg_buffer bq),
         Mmap (buf_length bq) (PROT_READ OR PROT_WRITE) MAP_SHARED fd (m_offset bq) p,
         Ioctl fd VIDIOC_STREAMON (Arg_type V4L2_BUF_TYPE_VIDEO_CAPTURE) st4 (Arg_type V4L2_BUF_TYPE_VIDEO_CAPTURE),
         Ioctl fd VIDIOC_QBUF (Arg_buffer (zero_buffer\<lparr>buf_type := V4L2_BUF_TYPE_VIDEO_CAPTURE,
            buf_memory := V4L2_MEMORY_MMAP, buf_index := 0\<rparr>)) st5 (Arg_buffer b1),
         Ioctl fd VIDIOC_DQBUF (Arg_buffer b1) st6 (Arg_buffer b2),
         Stderr m e]
     \<and> fdtab s = (\<lambda>d. None)(fd \<mapsto> (CAMERA_DEV_PATH, O_RDWR))
     \<and> b1 = out (vidioc_qbuf k fd (zero_buffer\<lparr>buf_type := V4L2_BUF_TYPE_VIDEO_CAPTURE,
            buf_memory := V4L2_MEMORY_MMAP, buf_index := 0\<rparr>)))
   \<or> (\<exists>fd st1 f1 st2 q1 st3 bq p st4 st5 b1 st6 b2 st7 m e.
       c = 1
     \<and> 0 \<le> fd
     \<and> 0 \<le> st1
     \<and> 0 \<le> st2
     \<and> 0 \<le> st3
     \<and> p \<noteq> MAP_FAILED
     \<and> 0 \<le> st4
     \<and> 0 \<le> st5
     \<and> 0 \<le> st6
     \<and> st7 < 0
     \<and> trace s = [Open CAMERA_DEV_PATH O_RDWR fd,
         Ioctl fd VIDIOC_S_FMT (Arg_format (zero_format\<lparr>fmt_type := V4L2_BUF_TYPE_VIDEO_CAPTURE,
            fmt_pix := zero_pix_format\<lparr>width := 1920, height := 1080,
              pixelformat := V4L2_PIX_FMT_MJPEG, colorspace := V4L2_COLORSPACE_REC709\<rparr>\<rparr>)) st1 (Arg_format f1),
         Ioctl fd VIDIOC_REQBUFS (Arg_requestbuffers (zero_requestbuffers\<lparr>req_type := V4L2_BUF_TYPE_VIDEO_CAPTURE,
            req_memory := V4L2_MEMORY_MMAP, req_count := 1\<rparr>)) st2 (Arg_requestbuffers q1),
         Ioctl fd VIDIOC_QUERYBUF (Arg_buffer (zero_buffer\<lparr>buf_type := V4L2_BUF_TYPE_VIDEO_CAPTURE,
            buf_memory := V4L2_MEMORY_MMAP, buf_index := 0\<rparr>)) st3 (Arg_buffer bq),
         Mmap (buf_length bq) (PROT_READ OR PROT_WRITE) MAP_SHARED fd (m_offset bq) p,
         Ioctl fd VIDIOC_STREAMON (Arg_type V4L2_BUF_TYPE_VIDEO_CAPTURE) st4 (Arg_type V4L2_BUF_TYPE_VIDEO_CAPTURE),
         Ioctl fd VIDIOC_QBUF (Arg_buffer (zero_buffer\<lparr>buf_type := V4L2_BUF_TYPE_VIDEO_CAPTURE,
            buf_memory := V4L2_MEMORY_MMAP, buf_index := 0\<rparr>)) st5 (Arg_buffer b1),
         Ioctl fd VIDIOC_DQBUF (Arg_buffer b1) st6 (Arg_buffer b2),
         Ioctl fd VIDIOC_STREAMOFF (Arg_type (buf_type b2)) st7 (Arg_type (buf_type b2)),
         Stderr m e]
     \<and> fdtab s = (\<lambda>d. None)(fd \<mapsto> (CAMERA_DEV_PATH, O_RDWR))
     \<and> b1 = out (vidioc_qbuf k fd (zero_buffer\<lparr>buf_type := V4L2_BUF_TYPE_VIDEO_CAPTURE,
            buf_memory := V4L2_MEMORY_MMAP, buf_index := 0\<rparr>)))
   \<or> (\<exists>fd st1 f1 st2 q1 st3 bq p st4 st5 b1 st6 b2 st7 ifd m e.
       c = 1
     \<and> 0 \<le> fd
     \<and> 0 \<le> st1
     \<and> 0 \<le> st2
     \<and> 0 \<le> st3
     \<and> p \<noteq> MAP_FAILED
     \<and> 0 \<le> st4
     \<and> 0 \<le> st5
     \<and> 0 \<le> st6
     \<and> 0 \<le> st7
     \<and> ifd < 0
     \<and> trace s = [Open CAMERA_DEV_PATH O_RDWR fd,
         Ioctl fd VIDIOC_S_FMT (Arg_format (zero_format\<lparr>fmt_type := V4L2_BUF_TYPE_VIDEO_CAPTURE,
            fmt_pix := zero_pix_format\<lparr>width := 1920, height := 1080,
              pixelformat := V4L2_PIX_FMT_MJPEG, colorspace := V4L2_COLORSPACE_REC709\<rparr>\<rparr>)) st1 (Arg_format f1),
         Ioctl fd VIDIOC_REQBUFS (Arg_requestbuffers (zero_requestbuffers\<lparr>req_type := V4L2_BUF_TYPE_VIDEO_CAPTURE,
            req_memory := V4L2_MEMORY_MMAP, req_count := 1\<rparr>)) st2 (Arg_requestbuffers q1),
         Ioctl fd VIDIOC_QUERYBUF (Arg_buffer (zero_buffer\<lparr>buf_type := V4L2_BUF_TYPE_VIDEO_CAPTURE,
            buf_memory := V4L2_MEMORY_MMAP, buf_index := 0\<rparr>)) st3 (Arg_buffer bq),
         Mmap (buf_length bq) (PROT_READ OR PROT_WRITE) MAP_SHARED fd (m_offset bq) p,
         Ioctl fd VIDIOC_STREAMON (Arg_type V4L2_BUF_TYPE_VIDEO_CAPTURE) st4 (Arg_type V4L2_BUF_TYPE_VIDEO_CAPTURE),
         Ioctl fd VIDIOC_QBUF (Arg_buffer (zero_buffer\<lparr>buf_type := V4L2_BUF_TYPE_VIDEO_CAPTURE,
            buf_memory := V4L2_MEMORY_MMAP, buf_index := 0\<rparr>)) st5 (Arg_buffer b1),
         Ioctl fd VIDIOC_DQBUF (Arg_buffer b1) st6 (Arg_buffer b2),
         Ioctl fd VIDIOC_STREAMOFF (Arg_type (buf_type b2)) st7 (Arg_type (buf_type b2)),
         Open IMAGE_CAPTURE_SAVE_PATH (O_WRONLY OR O_CREAT) ifd,
         Stderr m e]
     \<and> fdtab s = (\<lambda>d. None)(fd \<mapsto> (CAMERA_DEV_PATH, O_RDWR))
     \<and> b1 = out (vidioc_qbuf k fd (zero_buffer\<lparr>buf_type := V4L2_BUF_TYPE_VIDEO_CAPTURE,
            buf_memory := V4L2_MEMORY_MMAP, buf_index := 0\<rparr>)))
   \<or> (\<exists>fd st1 f1 st2 q1 st3 bq p st4 st5 b1 st6 b2 st7 ifd w.
       c = 0
     \<and> 0 \<le> fd
     \<and> 0 \<le> st1
     \<and> 0 \<le> st2
     \<and> 0 \<le> st3
     \<and> p \<noteq> MAP_FAILED
     \<and> 0 \<le> st4
     \<and> 0 \<le> st5
     \<and> 0 \<le> st6
     \<and> 0 \<le> st7
     \<and> 0 \<le> ifd
     \<and> trace s = [Open CAMERA_DEV_PATH O_RDWR fd,
         Ioctl fd VIDIOC_S_FMT (Arg_format (zero_format\<lparr>fmt_type := V4L2_BUF_TYPE_VIDEO_CAPTURE,
            fmt_pix := zero_pix_format\<lparr>width := 1920, height := 1080,
              pixelformat := V4L2_PIX_FMT_MJPEG, colorspace := V4L2_COLORSPACE_REC709\<rparr>\<rparr>)) st1 (Arg_format f1),
         Ioctl fd VIDIOC_REQBUFS (Arg_requestbuffers (zero_requestbuffers\<lparr>req_type := V4L2_BUF_TYPE_VIDEO_CAPTURE,
            req_memory := V4L2_MEMORY_MMAP, req_count := 1\<rparr>)) st2 (Arg_requestbuffers q1),
         Ioctl fd VIDIOC_QUERYBUF (Arg_buffer (zero_buffer\<lparr>buf_type := V4L2_BUF_TYPE_VIDEO_CAPTURE,
            buf_memory := V4L2_MEMORY_MMAP, buf_index := 0\<rparr>)) st3 (Arg_buffer bq),
         Mmap (buf_length bq) (PROT_READ OR PROT_WRITE) MAP_SHARED fd (m_offset bq) p,
         Ioctl fd VIDIOC_STREAMON (Arg_type V4L2_BUF_TYPE_VIDEO_CAPTURE) st4 (Arg_type V4L2_BUF_TYPE_VIDEO_CAPTURE),
         Ioctl fd VIDIOC_QBUF (Arg_buffer (zero_buffer\<lparr>buf_type := V4L2_BUF_TYPE_VIDEO_CAPTURE,
            buf_memory := V4L2_MEMORY_MMAP, buf_index := 0\<rparr>)) st5 (Arg_buffer b1),
         Ioctl fd VIDIOC_DQBUF (Arg_buffer b1) st6 (Arg_buffer b2),
         Ioctl fd VIDIOC_STREAMOFF (Arg_type (buf_type b2)) st7 (Arg_type (buf_type b2)),
         Open IMAGE_CAPTURE_SAVE_PATH (O_WRONLY OR O_CREAT) ifd,
         Write ifd p (buf_length b2) w,
         Close ifd,
         Close fd,
         Stdout (''Image capture successful, saved to '' @ IMAGE_CAPTURE_SAVE_PATH @ [CHR 0x0A])]
     \<and> b1 = out (vidioc_qbuf k fd (zero_buffer\<lparr>buf_type := V4L2_BUF_TYPE_VIDEO_CAPTURE,
            buf_memory := V4L2_MEMORY_MMAP, buf_index := 0\<rparr>))
     \<and> fdtab s = ((\<lambda>d. None)(fd \<mapsto> (CAMERA_DEV_PATH, O_RDWR)))(ifd := None, fd := None)
     \<and> region s = fill_region (frame k) (replicate (unat (buf_length bq)) 0)
     \<and> files s IMAGE_CAPTURE_SAVE_PATH =
         Some (put_bytes 0 (take (nat w) (read_memory k (region s) (unat (buf_length b2))))
                 (case fs IMAGE_CAPTURE_SAVE_PATH of None \<Rightarrow> [] | Some old \<Rightarrow> old))
     \<and> buffer (camera_params s) = b2
     \<and> buffer_start (camera_params s) = p)"
proof -
  consider (x0) "open_camera_device k (initial_state fs) = Exited c s"
    | (x1) s1 where "open_camera_device k (initial_state fs) = Running s1" "set_video_format k (s1) = Exited c s"
    | (x2) s1 s2 where "open_camera_device k (initial_state fs) = Running s1" "set_video_format k (s1) = Running s2" "request_buffer k (s2) = Exited c s"
    | (x3) s1 s2 s3 where "open_camera_device k (initial_state fs) = Running s1" "set_video_format k (s1) = Running s2" "request_buffer k (s2) = Running s3" "allocate_buffer k (s3) = Exited c s"
    | (x4) s1 s2 s3 s4 where "open_camera_device k (initial_state fs) = Running s1" "set_video_format k (s1) = Running s2" "request_buffer k (s2) = Running s3" "allocate_buffer k (s3) = Running s4" "activate_streaming k (s4) = Exited c s"
    | (x5) s1 s2 s3 s4 s5 where "open_camera_device k (initial_state fs) = Running s1" "set_video_format k (s1) = Running s2" "request_buffer k (s2) = Running s3" "allocate_buffer k (s3) = Running s4" "activate_streaming k (s4) = Running s5" "get_frame k (s5) = Exited c s"
    | (x6) s1 s2 s3 s4 s5 s6 where "open_camera_device k (initial_state fs) = Running s1" "set_video_format k (s1) = Running s2" "request_buffer k (s2) = Running s3" "allocate_buffer k (s3) = Running s4" "activate_streaming k (s4) = Running s5" "get_frame k (s5) = Running s6" "deactivate_streaming k (s6) = Exited c s"
    | (x7) s1 s2 s3 s4 s5 s6 s7 where "open_camera_device k (initial_state fs) = Running s1" "set_video_format k (s1) = Running s2" "request_buffer k (s2) = Running s3" "allocate_buffer k (s3) = Running s4" "activate_streaming k (s4) = Running s5" "get_frame k (s5) = Running s6" "deactivate_streaming k (s6) = Running s7" "save_to_image k (s7) = Exited c s"
    | (x9) s1 s2 s3 s4 s5 s6 s7 s8 s9 where "open_camera_device k (initial_state fs) = Running s1" "set_video_format k (s1) = Running s2" "request_buffer k (s2) = Running s3" "allocate_buffer k (s3) = Running s4" "activate_streaming k (s4) = Running s5" "get_frame k (s5) = Running s6" "deactivate_streaming k (s6) = Running s7" "save_to_image k (s7) = Running s8" "close_camera_device (s8) = Running s9" "c = 0" "s = emit (Stdout (''Image capture successful, saved to '' @ IMAGE_CAPTURE_SAVE_PATH @ [CHR 0x0A])) s9"
    using main_cases [OF assms] by (elim disjE exE conjE) blast+
  then show ?thesis
  proof cases
    case x0
    show ?thesis
      using  open_camera_device_Exited [OF x0(1)]
      apply (elim exE conjE)
      apply (rule disjI1)
      apply (simp add: initial_state_def zero_format_def)
      done
  next
    case x1
    show ?thesis
      using open_camera_device_Running [OF x1(1)] set_video_format_Exited [OF x1(2)]
      apply (elim exE conjE)
      apply (rule disjI2)
      apply (rule disjI1)
      apply (simp add: initial_state_def zero_format_def)
      done
  next
    case x2
    show ?thesis
      using open_camera_device_Running [OF x2(1)] set_video_format_Running [OF x2(2)] request_buffer_Exited [OF x2(3)]
      apply (elim exE conjE)
      apply (rule disjI2)
      apply (rule disjI2)
      apply (rule disjI1)
      apply (simp add: initial_state_def zero_format_def)
      done
  next
    case x3
    show ?thesis
      using open_camera_device_Running [OF x3(1)] set_video_format_Running [OF x3(2)] request_buffer_Running [OF x3(3)] allocate_buffer_Exited [OF x3(4)]
      apply (elim exE conjE disjE)
      subgoal
        apply (rule disjI2)
        apply (rule disjI2)
        apply (rule disjI2)
        apply (rule disjI1)
        apply (simp add: initial_state_def zero_format_def)
        done
      subgoal
        apply (rule disjI2)
        apply (rule disjI2)
        apply (rule disjI2)
        apply (rule disjI2)
        apply (rule disjI1)
        apply (simp add: initial_state_def zero_format_def)
        done
      done
  next
    case x4
    show ?thesis
      using open_camera_device_Running [OF x4(1)] set_video_format_Running [OF x4(2)] request_buffer_Running [OF x4(3)] allocate_buffer_Running [OF x4(4)] activate_streaming_Exited [OF x4(5)]
      apply (elim exE conjE)
      apply (rule disjI2)
      apply (rule disjI2)
      apply (rule disjI2)
      apply (rule disjI2)
      apply (rule disjI2)
      apply (rule disjI1)
      apply (simp add: initial_state_def zero_format_def)
      done
  next
    case x5
    show ?thesis
      using open_camera_device_Running [OF x5(1)] set_video_format_Running [OF x5(2)] request_buffer_Running [OF x5(3)] allocate_buffer_Running [OF x5(4)] activate_streaming_Running [OF x5(5)] get_frame_Exited [OF x5(6)]
      apply (elim exE conjE disjE)
      subgoal
        apply (rule disjI2)
        apply (rule disjI2)
        apply (rule disjI2)
        apply (rule disjI2)
        apply (rule disjI2)
        apply (rule disjI2)
        apply (rule disjI1)
        apply (simp add: initial_state_def zero_format_def)
        done
      subgoal
        apply (rule disjI2)
        apply (rule disjI2)
        apply (rule disjI2)
        apply (rule disjI2)
        apply (rule disjI2)
        apply (rule disjI2)
        apply (rule disjI2)
        apply (rule disjI1)
        apply (simp add: initial_state_def zero_format_def)
        done
      done
  next
    case x6
    show ?thesis
      using open_camera_device_Running [OF x6(1)] set_video_format_Running [OF x6(2)] request_buffer_Running [OF x6(3)] allocate_buffer_Running [OF x6(4)] activate_streaming_Running [OF x6(5)] get_frame_Running [OF x6(6)] deactivate_streaming_Exited [OF x6(7)]
      apply (elim exE conjE)
      apply (rule disjI2)
      apply (rule disjI2)
      apply (rule disjI2)
      apply (rule disjI2)
      apply (rule disjI2)
      apply (rule disjI2)
      apply (rule disjI2)
      apply (rule disjI2)
      apply (rule disjI1)
      apply (simp add: initial_state_def zero_format_def)
      done
  next
    case x7
    show ?thesis
      using open_camera_device_Running [OF x7(1)] set_video_format_Running [OF x7(2)] request_buffer_Running [OF x7(3)] allocate_buffer_Running [OF x7(4)] activate_streaming_Running [OF x7(5)] get_frame_Running [OF x7(6)] deactivate_streaming_Running [OF x7(7)] save_to_image_Exited [OF x7(8)]
      apply (elim exE conjE)
      apply (rule disjI2)
      apply (rule disjI2)
      apply (rule disjI2)
      apply (rule disjI2)
      apply (rule disjI2)
      apply (rule disjI2)
      apply (rule disjI2)
      apply (rule disjI2)
      apply (rule disjI2)
      apply (rule disjI1)
      apply (simp add: initial_state_def zero_format_def)
      done
  next
    case x9
    show ?thesis
      using open_camera_device_Running [OF x9(1)] set_video_format_Running [OF x9(2)] request_buffer_Running [OF x9(3)] allocate_buffer_Running [OF x9(4)] activate_streaming_Running [OF x9(5)] get_frame_Running [OF x9(6)] deactivate_streaming_Running [OF x9(7)] save_to_image_Running [OF x9(8)] close_camera_device_Running [OF x9(9)] x9(10) x9(11)
      apply (elim exE conjE)
      apply (rule disjI2)
      apply (rule disjI2)
      apply (rule disjI2)
      apply (rule disjI2)
      apply (rule disjI2)
      apply (rule disjI2)
      apply (rule disjI2)
      apply (rule disjI2)
      apply (rule disjI2)
      apply (rule disjI2)
      apply (simp add: initial_state_def zero_format_def emit_def)
      done
  qed
qed


section \<open>Memory reads, and the sample runs\<close>

lemma put_bytes_0: "put_bytes 0 bs old = bs @ drop (length bs) old"
  by (simp add: put_bytes_def)

lemma length_read_memory: "length (read_memory k r n) = n"
  by (simp add: read_memory_def)


lemma run_pair: "fst r = c \<Longrightarrow> r = (c, snd r)"
  by (simp add: prod_eq_iff)

lemma running_state: "is_running r \<Longrightarrow> r = Running (the_state r)"
  by (cases r) simp_all

lemma demo_exit: "fst (main demo_kernel (initial_state no_files)) = 0"
  by code_simp

lemma demo_old_exit: "fst (main demo_kernel (initial_state old_image)) = 0"
  by code_simp

lemma querybuf_fails_exit: "fst (main querybuf_fails_kernel (initial_state no_files)) = 1"
  by code_simp


section \<open>The claims\<close>

text \<open>
  \<^bold>\<open>C1.\<close> A run that exits with code 0 made exactly these calls, in this order and each
  once: open the device; set the format; request buffers; query the buffer and map it;
  stream on; enqueue, then dequeue; stream off; open the image, write to it, close it;
  close the device; and then printed the success line.
\<close>

theorem successful_run_order:
  assumes "main k (initial_state fs) = (0, s)"
  shows "\<exists>fd a1 st1 r1 a2 st2 r2 a3 st3 r3 len prot mfl off p a4 st4 r4 a5 st5 r5 a6 st6 r6
           a7 st7 r7 ofl ifd src n w msg.
     trace s =
       [Open CAMERA_DEV_PATH O_RDWR fd,
        Ioctl fd VIDIOC_S_FMT a1 st1 r1,
        Ioctl fd VIDIOC_REQBUFS a2 st2 r2,
        Ioctl fd VIDIOC_QUERYBUF a3 st3 r3,
        Mmap len prot mfl fd off p,
        Ioctl fd VIDIOC_STREAMON a4 st4 r4,
        Ioctl fd VIDIOC_QBUF a5 st5 r5,
        Ioctl fd VIDIOC_DQBUF a6 st6 r6,
        Ioctl fd VIDIOC_STREAMOFF a7 st7 r7,
        Open IMAGE_CAPTURE_SAVE_PATH ofl ifd,
        Write ifd src n w,
        Close ifd,
        Close fd,
        Stdout msg]"
  using main_outcomes [OF assms]
  by (elim disjE exE conjE) simp_all

theorem successful_run_order_witness:
  "main demo_kernel (initial_state no_files) = (0, snd (main demo_kernel (initial_state no_files)))
   \<and> (\<exists>fd a1 st1 r1 a2 st2 r2 a3 st3 r3 len prot mfl off p a4 st4 r4 a5 st5 r5 a6 st6 r6
           a7 st7 r7 ofl ifd src n w msg.
     trace (snd (main demo_kernel (initial_state no_files))) =
       [Open CAMERA_DEV_PATH O_RDWR fd,
        Ioctl fd VIDIOC_S_FMT a1 st1 r1,
        Ioctl fd VIDIOC_REQBUFS a2 st2 r2,
        Ioctl fd VIDIOC_QUERYBUF a3 st3 r3,
        Mmap len prot mfl fd off p,
        Ioctl fd VIDIOC_STREAMON a4 st4 r4,
        Ioctl fd VIDIOC_QBUF a5 st5 r5,
        Ioctl fd VIDIOC_DQBUF a6 st6 r6,
        Ioctl fd VIDIOC_STREAMOFF a7 st7 r7,
        Open IMAGE_CAPTURE_SAVE_PATH ofl ifd,
        Write ifd src n w,
        Close ifd,
        Close fd,
        Stdout msg])"
proof -
  have run: "main demo_kernel (initial_state no_files)
      = (0, snd (main demo_kernel (initial_state no_files)))"
    by (rule run_pair [OF demo_exit])
  from run successful_run_order [OF run] show ?thesis
    by (rule conjI)
qed

text \<open>
  \<^bold>\<open>C2.\<close> Whenever a call of the session fails (a negative descriptor or status, or
  \<open>MAP_FAILED\<close>), the exit code is 1 and the only thing that follows the failed call
  in the trace is one diagnostic on standard error: no later step runs. When no such
  call failed the exit code is 0. When opening the device failed, the trace holds no
  control request at all. The exit code is always 0 or 1.
\<close>

theorem failure_stops_run:
  assumes "main k (initial_state fs) = (c, s)"
  shows "(\<forall>i<length (trace s). step_failed (trace s ! i) \<longrightarrow>
            c = 1 \<and> (\<exists>m e. drop (Suc i) (trace s) = [Stderr m e]))
       \<and> ((\<forall>ev\<in>set (trace s). \<not> step_failed ev) \<longrightarrow> c = 0)
       \<and> (\<forall>flags fd. Open CAMERA_DEV_PATH flags fd \<in> set (trace s) \<and> fd < 0 \<longrightarrow>
            (\<forall>ev\<in>set (trace s). \<not> is_ioctl ev))
       \<and> (c = 0 \<or> c = 1)"
  using main_outcomes [OF assms] paths_differ
  by (elim disjE exE conjE) (simp_all add: All_less_Suc)

theorem failure_stops_run_witness:
  "step_failed (trace (snd (main querybuf_fails_kernel (initial_state no_files))) ! 3)
   \<and> fst (main querybuf_fails_kernel (initial_state no_files)) = 1
   \<and> (\<exists>m e. drop 4 (trace (snd (main querybuf_fails_kernel (initial_state no_files))))
         = [Stderr m e])
   \<and> filter step_failed (trace (snd (main demo_kernel (initial_state no_files)))) = []
   \<and> fst (main demo_kernel (initial_state no_files)) = 0
   \<and> Open CAMERA_DEV_PATH O_RDWR (- 1)
        \<in> set (trace (snd (main no_device_kernel (initial_state no_files))))
   \<and> filter is_ioctl (trace (snd (main no_device_kernel (initial_state no_files)))) = []"
proof -
  have len: "3 < length (trace (snd (main querybuf_fails_kernel (initial_state no_files))))"
    by code_simp
  have bad: "step_failed (trace (snd (main querybuf_fails_kernel (initial_state no_files))) ! 3)"
    by code_simp
  have good: "\<forall>ev\<in>set (trace (snd (main demo_kernel (initial_state no_files)))). \<not> step_failed ev"
    by code_simp
  have nodev: "Open CAMERA_DEV_PATH O_RDWR (- 1)
        \<in> set (trace (snd (main no_device_kernel (initial_state no_files))))"
    by code_simp
  have neg: "(- 1 :: int) < 0"
    by simp
  from failure_stops_run [of querybuf_fails_kernel no_files
      "fst (main querybuf_fails_kernel (initial_state no_files))"
      "snd (main querybuf_fails_kernel (initial_state no_files))"] len bad
  have a: "fst (main querybuf_fails_kernel (initial_state no_files)) = 1
     \<and> (\<exists>m e. drop 4 (trace (snd (main querybuf_fails_kernel (initial_state no_files))))
         = [Stderr m e])"
    by (simp add: numeral_eq_Suc) 
  from failure_stops_run [of demo_kernel no_files
      "fst (main demo_kernel (initial_state no_files))"
      "snd (main demo_kernel (initial_state no_files))"] good
  have b: "fst (main demo_kernel (initial_state no_files)) = 0"
    by simp
  from failure_stops_run [of no_device_kernel no_files
      "fst (main no_device_kernel (initial_state no_files))"
      "snd (main no_device_kernel (initial_state no_files))"] nodev neg
  have c: "\<forall>ev\<in>set (trace (snd (main no_device_kernel (initial_state no_files)))). \<not> is_ioctl ev"
    by (simp only: prod.collapse simp_thms) blast
  from good have good': "filter step_failed (trace (snd (main demo_kernel (initial_state no_files)))) = []"
    by (simp only: filter_empty_conv)
  from c have c': "filter is_ioctl (trace (snd (main no_device_kernel (initial_state no_files)))) = []"
    by (simp only: filter_empty_conv)
  from bad a good' b nodev c' show ?thesis
    by simp
qed

text \<open>
  \<^bold>\<open>C3.\<close> When \<open>allocate_buffer\<close> returns, the buffer descriptor is the driver's answer
  to the buffer query and the mapped region consists of that many zero bytes;
  \<open>activate_streaming\<close>, the only function between it and \<open>get_frame\<close>, leaves the
  region as it is. So the region is all zero, and as long as the reported length, when
  the capture starts.
\<close>

theorem mapped_region_zero_before_capture:
  assumes "allocate_buffer k s = Running s1"
    and "activate_streaming k s1 = Running s2"
  shows "buffer (camera_params s1) =
           out (vidioc_querybuf k (device_fs (camera_params s))
                  (zero_buffer\<lparr>buf_type := V4L2_BUF_TYPE_VIDEO_CAPTURE,
                     buf_memory := V4L2_MEMORY_MMAP, buf_index := 0\<rparr>))
       \<and> region s1 = replicate (unat (buf_length (buffer (camera_params s1)))) 0
       \<and> region s2 = region s1
       \<and> length (region s2) = unat (buf_length (buffer (camera_params s1)))
       \<and> (\<forall>x\<in>set (region s2). x = 0)"
  using allocate_buffer_Running [OF assms(1)] activate_streaming_Running [OF assms(2)]
  by (elim exE conjE) simp

theorem mapped_region_zero_before_capture_witness:
  "allocate_buffer demo_kernel (initial_state no_files)
     = Running (the_state (allocate_buffer demo_kernel (initial_state no_files)))
   \<and> activate_streaming demo_kernel (the_state (allocate_buffer demo_kernel (initial_state no_files)))
     = Running (the_state (activate_streaming demo_kernel
         (the_state (allocate_buffer demo_kernel (initial_state no_files)))))
   \<and> region (the_state (activate_streaming demo_kernel
         (the_state (allocate_buffer demo_kernel (initial_state no_files))))) = [0, 0, 0, 0]
   \<and> unat (buf_length (buffer (camera_params
         (the_state (allocate_buffer demo_kernel (initial_state no_files)))))) = 4"
proof -
  have a: "allocate_buffer demo_kernel (initial_state no_files)
     = Running (the_state (allocate_buffer demo_kernel (initial_state no_files)))"
    by (rule running_state) code_simp
  have b: "activate_streaming demo_kernel (the_state (allocate_buffer demo_kernel (initial_state no_files)))
     = Running (the_state (activate_streaming demo_kernel
         (the_state (allocate_buffer demo_kernel (initial_state no_files)))))"
    by (rule running_state) code_simp
  have n: "unat (buf_length (buffer (camera_params
         (the_state (allocate_buffer demo_kernel (initial_state no_files)))))) = 4"
    by code_simp
  from mapped_region_zero_before_capture [OF a b] n
  have "region (the_state (activate_streaming demo_kernel
         (the_state (allocate_buffer demo_kernel (initial_state no_files))))) = replicate 4 0"
    by simp
  then have "region (the_state (activate_streaming demo_kernel
         (the_state (allocate_buffer demo_kernel (initial_state no_files))))) = [0, 0, 0, 0]"
    by (simp add: numeral_eq_Suc)
  with a b n show ?thesis
    by simp
qed




text \<open>
  \<^bold>\<open>C5.\<close> The enqueue and the dequeue both end the process with code 1 when they fail,
  but the line on standard error is the same for both: \<open>get_frame\<close> passes
  \<open>"VIDIOC_QBUF"\<close> to \<open>perror\<close> after the failed \<open>VIDIOC_DQBUF\<close> too. With the
  same error number the two failures cannot be told apart from the diagnostic.
\<close>

theorem dequeue_failure_reported_as_enqueue:
  "fst (main qbuf_fails_kernel (initial_state no_files)) = 1
   \<and> failed_requests (trace (snd (main qbuf_fails_kernel (initial_state no_files)))) = [VIDIOC_QBUF]
   \<and> diagnostics (trace (snd (main qbuf_fails_kernel (initial_state no_files)))) = [(''VIDIOC_QBUF'', 5)]
   \<and> fst (main dqbuf_fails_kernel (initial_state no_files)) = 1
   \<and> failed_requests (trace (snd (main dqbuf_fails_kernel (initial_state no_files)))) = [VIDIOC_DQBUF]
   \<and> diagnostics (trace (snd (main dqbuf_fails_kernel (initial_state no_files)))) = [(''VIDIOC_QBUF'', 5)]"
  by code_simp

text \<open>
  \<^bold>\<open>C6.\<close> \<open>save_to_image\<close> discards the value \<open>write\<close> returns. On a kernel whose
  \<open>write\<close> fails, the run prints no diagnostic, reports success on standard output
  and exits with code 0, leaving the image file created and empty.
\<close>

theorem write_failure_reported_as_success:
  "fst (main write_fails_kernel (initial_state no_files)) = 0
   \<and> trace (snd (main write_fails_kernel (initial_state no_files))) ! 10 = Write 4 (Addr 4096) 3 (- 1)
   \<and> last (trace (snd (main write_fails_kernel (initial_state no_files)))) =
        Stdout (''Image capture successful, saved to '' @ IMAGE_CAPTURE_SAVE_PATH @ [CHR 0x0A])
   \<and> diagnostics (trace (snd (main write_fails_kernel (initial_state no_files)))) = []
   \<and> files (snd (main write_fails_kernel (initial_state no_files))) IMAGE_CAPTURE_SAVE_PATH = Some []"
  by code_simp

text \<open>
  \<^bold>\<open>C7.\<close> When the buffer query or the mapping fails, the run exits with code 1; the
  device was opened with success and its descriptor is still in the descriptor table
  at exit, format and buffer request had succeeded, no \<open>close\<close> was called, and no
  stream-on request was issued.
\<close>

theorem query_or_map_failure_leaves_device_open:
  assumes "main k (initial_state fs) = (c, s)"
    and "(\<exists>fd a st a'. Ioctl fd VIDIOC_QUERYBUF a st a' \<in> set (trace s) \<and> st < 0)
       \<or> (\<exists>len prot mfl fd off. Mmap len prot mfl fd off MAP_FAILED \<in> set (trace s))"
  shows "c = 1
       \<and> (\<exists>fd. hd (trace s) = Open CAMERA_DEV_PATH O_RDWR fd \<and> 0 \<le> fd
             \<and> fdtab s fd = Some (CAMERA_DEV_PATH, O_RDWR))
       \<and> (\<exists>fd a st a'. Ioctl fd VIDIOC_S_FMT a st a' \<in> set (trace s) \<and> 0 \<le> st)
       \<and> (\<exists>fd a st a'. Ioctl fd VIDIOC_REQBUFS a st a' \<in> set (trace s) \<and> 0 \<le> st)
       \<and> (\<forall>fd. Close fd \<notin> set (trace s))
       \<and> (\<forall>fd a st a'. Ioctl fd VIDIOC_STREAMON a st a' \<notin> set (trace s))"
  using main_outcomes [OF assms(1)] assms(2)
  by (elim disjE exE conjE) auto

theorem query_or_map_failure_leaves_device_open_witness:
  "Ioctl 3 VIDIOC_QUERYBUF
      (Arg_buffer (zero_buffer\<lparr>buf_type := V4L2_BUF_TYPE_VIDEO_CAPTURE,
         buf_memory := V4L2_MEMORY_MMAP, buf_index := 0\<rparr>)) (- 1)
      (Arg_buffer (zero_buffer\<lparr>buf_type := V4L2_BUF_TYPE_VIDEO_CAPTURE,
         buf_memory := V4L2_MEMORY_MMAP, buf_index := 0\<rparr>))
     \<in> set (trace (snd (main querybuf_fails_kernel (initial_state no_files))))
   \<and> fst (main querybuf_fails_kernel (initial_state no_files)) = 1
   \<and> (\<exists>fd. hd (trace (snd (main querybuf_fails_kernel (initial_state no_files))))
               = Open CAMERA_DEV_PATH O_RDWR fd \<and> 0 \<le> fd
          \<and> fdtab (snd (main querybuf_fails_kernel (initial_state no_files))) fd
               = Some (CAMERA_DEV_PATH, O_RDWR))
   \<and> (\<forall>fd. Close fd \<notin> set (trace (snd (main querybuf_fails_kernel (initial_state no_files)))))
   \<and> (\<forall>fd a st a'. Ioctl fd VIDIOC_STREAMON a st a'
          \<notin> set (trace (snd (main querybuf_fails_kernel (initial_state no_files)))))"
proof -
  have run: "main querybuf_fails_kernel (initial_state no_files)
      = (1, snd (main querybuf_fails_kernel (initial_state no_files)))"
    by (rule run_pair [OF querybuf_fails_exit])
  have ev: "Ioctl 3 VIDIOC_QUERYBUF
      (Arg_buffer (zero_buffer\<lparr>buf_type := V4L2_BUF_TYPE_VIDEO_CAPTURE,
         buf_memory := V4L2_MEMORY_MMAP, buf_index := 0\<rparr>)) (- 1)
      (Arg_buffer (zero_buffer\<lparr>buf_type := V4L2_BUF_TYPE_VIDEO_CAPTURE,
         buf_memory := V4L2_MEMORY_MMAP, buf_index := 0\<rparr>))
     \<in> set (trace (snd (main querybuf_fails_kernel (initial_state no_files))))"
    by code_simp
  then have hyp: "(\<exists>fd a st a'. Ioctl fd VIDIOC_QUERYBUF a st a'
          \<in> set (trace (snd (main querybuf_fails_kernel (initial_state no_files)))) \<and> st < 0)
       \<or> (\<exists>len prot mfl fd off. Mmap len prot mfl fd off MAP_FAILED
          \<in> set (trace (snd (main querybuf_fails_kernel (initial_state no_files)))))"
    by (intro disjI1 exI [of _ 3] exI [of _ "- 1"] exI conjI) simp_all
  from query_or_map_failure_leaves_device_open [OF run hyp] ev querybuf_fails_exit
  show ?thesis
    by simp
qed

text \<open>
  \<^bold>\<open>C8.\<close> In every run, a buffer request carries type video-capture, memory mode
  memory-mapped and count 1; the only requests with a buffer descriptor are query,
  enqueue and dequeue; query and enqueue carry index 0, and the mapping uses the length
  and offset the driver reported for that index-0 query. The descriptor handed to the
  dequeue is the reply of the index-0 enqueue, unchanged by the program: it carries
  index 0 whenever the driver's enqueue leaves the index field as it found it.
\<close>

theorem single_buffer_index_zero:
  assumes "main k (initial_state fs) = (c, s)"
  shows "(\<forall>fd a st a'. Ioctl fd VIDIOC_REQBUFS a st a' \<in> set (trace s) \<longrightarrow>
            (\<exists>q. a = Arg_requestbuffers q \<and> req_type q = V4L2_BUF_TYPE_VIDEO_CAPTURE
               \<and> req_memory q = V4L2_MEMORY_MMAP \<and> req_count q = 1))
       \<and> (\<forall>fd rq b st a'. Ioctl fd rq (Arg_buffer b) st a' \<in> set (trace s) \<longrightarrow>
            rq = VIDIOC_QUERYBUF \<or> rq = VIDIOC_QBUF \<or> rq = VIDIOC_DQBUF)
       \<and> (\<forall>fd b st a'. Ioctl fd VIDIOC_QUERYBUF (Arg_buffer b) st a' \<in> set (trace s) \<longrightarrow>
            buf_index b = 0)
       \<and> (\<forall>len prot mfl fd off p. Mmap len prot mfl fd off p \<in> set (trace s) \<longrightarrow>
            (\<exists>b st r. Ioctl fd VIDIOC_QUERYBUF (Arg_buffer b) st (Arg_buffer r) \<in> set (trace s)
               \<and> buf_index b = 0 \<and> len = buf_length r \<and> off = m_offset r))
       \<and> (\<forall>fd b st a'. Ioctl fd VIDIOC_QBUF (Arg_buffer b) st a' \<in> set (trace s) \<longrightarrow>
            buf_index b = 0)
       \<and> (\<forall>fd b st a'. Ioctl fd VIDIOC_DQBUF (Arg_buffer b) st a' \<in> set (trace s) \<longrightarrow>
            (\<exists>b0 st0. Ioctl fd VIDIOC_QBUF (Arg_buffer b0) st0 (Arg_buffer b) \<in> set (trace s)
               \<and> buf_index b0 = 0 \<and> b = out (vidioc_qbuf k fd b0)))
       \<and> ((\<forall>fd b. buf_index (out (vidioc_qbuf k fd b)) = buf_index b) \<longrightarrow>
            (\<forall>fd b st a'. Ioctl fd VIDIOC_DQBUF (Arg_buffer b) st a' \<in> set (trace s) \<longrightarrow>
               buf_index b = 0))"
  using main_outcomes [OF assms(1)]
  by (elim disjE exE conjE) (auto simp: zero_buffer_def zero_requestbuffers_def)

theorem single_buffer_index_zero_witness:
  "(\<forall>fd b. buf_index (out (vidioc_qbuf demo_kernel fd b)) = buf_index b)
   \<and> (\<exists>fd b st a'. Ioctl fd VIDIOC_DQBUF (Arg_buffer b) st a'
          \<in> set (trace (snd (main demo_kernel (initial_state no_files)))) \<and> buf_index b = 0)
   \<and> (\<exists>fd b st a'. Ioctl fd VIDIOC_QBUF (Arg_buffer b) st a'
          \<in> set (trace (snd (main demo_kernel (initial_state no_files)))) \<and> buf_index b = 0)
   \<and> (\<exists>fd b st a'. Ioctl fd VIDIOC_QUERYBUF (Arg_buffer b) st a'
          \<in> set (trace (snd (main demo_kernel (initial_state no_files)))) \<and> buf_index b = 0)
   \<and> (\<exists>fd q st a'. Ioctl fd VIDIOC_REQBUFS (Arg_requestbuffers q) st a'
          \<in> set (trace (snd (main demo_kernel (initial_state no_files)))) \<and> req_count q = 1)"
proof -
  have run: "main demo_kernel (initial_state no_files) = (0, snd (main demo_kernel (initial_state no_files)))"
    by (rule run_pair [OF demo_exit])
  have keeps: "\<forall>fd b. buf_index (out (vidioc_qbuf demo_kernel fd b)) = buf_index b"
    by (simp add: demo_kernel_def)
  have dq: "Ioctl 3 VIDIOC_DQBUF (Arg_buffer (zero_buffer\<lparr>buf_type := V4L2_BUF_TYPE_VIDEO_CAPTURE,
         buf_memory := V4L2_MEMORY_MMAP, buf_index := 0\<rparr>)) 0
      (Arg_buffer ((zero_buffer\<lparr>buf_type := V4L2_BUF_TYPE_VIDEO_CAPTURE,
         buf_memory := V4L2_MEMORY_MMAP, buf_index := 0\<rparr>)\<lparr>bytesused := 3, buf_length := 3\<rparr>)) \<in> set (trace (snd (main demo_kernel (initial_state no_files))))"
    by code_simp
  have q: "Ioctl 3 VIDIOC_QBUF (Arg_buffer (zero_buffer\<lparr>buf_type := V4L2_BUF_TYPE_VIDEO_CAPTURE,
         buf_memory := V4L2_MEMORY_MMAP, buf_index := 0\<rparr>)) 0 (Arg_buffer (zero_buffer\<lparr>buf_type := V4L2_BUF_TYPE_VIDEO_CAPTURE,
         buf_memory := V4L2_MEMORY_MMAP, buf_index := 0\<rparr>)) \<in> set (trace (snd (main demo_kernel (initial_state no_files))))"
    by code_simp
  have qu: "Ioctl 3 VIDIOC_QUERYBUF (Arg_buffer (zero_buffer\<lparr>buf_type := V4L2_BUF_TYPE_VIDEO_CAPTURE,
         buf_memory := V4L2_MEMORY_MMAP, buf_index := 0\<rparr>)) 0
      (Arg_buffer ((zero_buffer\<lparr>buf_type := V4L2_BUF_TYPE_VIDEO_CAPTURE,
         buf_memory := V4L2_MEMORY_MMAP, buf_index := 0\<rparr>)\<lparr>m_offset := 0, buf_length := 4\<rparr>)) \<in> set (trace (snd (main demo_kernel (initial_state no_files))))"
    by code_simp
  have rq: "Ioctl 3 VIDIOC_REQBUFS
      (Arg_requestbuffers (zero_requestbuffers\<lparr>req_type := V4L2_BUF_TYPE_VIDEO_CAPTURE,
         req_memory := V4L2_MEMORY_MMAP, req_count := 1\<rparr>)) 0
      (Arg_requestbuffers (zero_requestbuffers\<lparr>req_type := V4L2_BUF_TYPE_VIDEO_CAPTURE,
         req_memory := V4L2_MEMORY_MMAP, req_count := 1\<rparr>)) \<in> set (trace (snd (main demo_kernel (initial_state no_files))))"
    by code_simp
  note t = single_buffer_index_zero [OF run]
  note t1 = t [THEN conjunct1, rule_format]
  note t3 = t [THEN conjunct2, THEN conjunct2, THEN conjunct1, rule_format]
  note t5 = t [THEN conjunct2, THEN conjunct2, THEN conjunct2, THEN conjunct2, THEN conjunct1,
    rule_format]
  note t6 = t [THEN conjunct2, THEN conjunct2, THEN conjunct2, THEN conjunct2, THEN conjunct2,
    THEN conjunct2, rule_format]
  from dq t6 [OF keeps [rule_format] dq]
  have "\<exists>fd b st a'. Ioctl fd VIDIOC_DQBUF (Arg_buffer b) st a'
          \<in> set (trace (snd (main demo_kernel (initial_state no_files)))) \<and> buf_index b = 0"
    by blast
  moreover from q t5 [OF q]
  have "\<exists>fd b st a'. Ioctl fd VIDIOC_QBUF (Arg_buffer b) st a'
          \<in> set (trace (snd (main demo_kernel (initial_state no_files)))) \<and> buf_index b = 0"
    by blast
  moreover from qu t3 [OF qu]
  have "\<exists>fd b st a'. Ioctl fd VIDIOC_QUERYBUF (Arg_buffer b) st a'
          \<in> set (trace (snd (main demo_kernel (initial_state no_files)))) \<and> buf_index b = 0"
    by blast
  moreover from rq t1 [OF rq]
  have "\<exists>fd q st a'. Ioctl fd VIDIOC_REQBUFS (Arg_requestbuffers q) st a'
          \<in> set (trace (snd (main demo_kernel (initial_state no_files)))) \<and> req_count q = 1"
    by blast
  ultimately show ?thesis
    using keeps by blast
qed

text \<open>
  The program neither reads back how many buffers the driver granted nor sets the index
  again before the dequeue. On a driver that grants four buffers and returns the
  enqueued descriptor with index 3, the run exits with code 0 and the dequeue is issued
  with index 3.
\<close>

theorem dequeue_index_counterexample:
  "fst (main reindex_kernel (initial_state no_files)) = 0
   \<and> buffer_indices (trace (snd (main reindex_kernel (initial_state no_files)))) =
        [(VIDIOC_QUERYBUF, 0), (VIDIOC_QBUF, 0), (VIDIOC_DQBUF, 3)]
   \<and> req_count (buffer_request (camera_params (snd (main reindex_kernel (initial_state no_files))))) = 4"
  by code_simp

text \<open>
  \<^bold>\<open>C9.\<close> However \<open>activate_streaming\<close> ends, the buffer descriptor afterwards is all
  zero except type, memory mode and index 0: the length and offset of the query are
  gone. In a run that exits with code 0 the enqueue is therefore issued with length 0
  and offset 0, the mapping was made with the length the query reported, and the count
  passed to \<open>write\<close> is the length field the dequeue wrote back.
\<close>

theorem write_count_is_dequeued_length:
  "(activate_streaming k s0 = Running s1 \<or> activate_streaming k s0 = Exited c1 s1 \<longrightarrow>
      buffer (camera_params s1) = zero_buffer\<lparr>buf_type := V4L2_BUF_TYPE_VIDEO_CAPTURE,
                     buf_memory := V4L2_MEMORY_MMAP, buf_index := 0\<rparr>
      \<and> buf_length (buffer (camera_params s1)) = 0 \<and> m_offset (buffer (camera_params s1)) = 0)
   \<and> (main k (initial_state fs) = (0, s) \<longrightarrow>
        (\<exists>fd a3 st3 bq prot mfl p b5 st5 r5 a6 st6 b2 ifd src w.
            Ioctl fd VIDIOC_QUERYBUF a3 st3 (Arg_buffer bq) \<in> set (trace s)
          \<and> Mmap (buf_length bq) prot mfl fd (m_offset bq) p \<in> set (trace s)
          \<and> Ioctl fd VIDIOC_QBUF (Arg_buffer b5) st5 r5 \<in> set (trace s)
          \<and> buf_length b5 = 0 \<and> m_offset b5 = 0
          \<and> Ioctl fd VIDIOC_DQBUF a6 st6 (Arg_buffer b2) \<in> set (trace s)
          \<and> buffer (camera_params s) = b2
          \<and> Write ifd src (buf_length b2) w \<in> set (trace s)))"
proof (intro conjI impI)
  assume "activate_streaming k s0 = Running s1 \<or> activate_streaming k s0 = Exited c1 s1"
  from activate_streaming_buffer [OF this]
  show "buffer (camera_params s1) = zero_buffer\<lparr>buf_type := V4L2_BUF_TYPE_VIDEO_CAPTURE,
                     buf_memory := V4L2_MEMORY_MMAP, buf_index := 0\<rparr>"
    and "buf_length (buffer (camera_params s1)) = 0"
    and "m_offset (buffer (camera_params s1)) = 0"
    by (simp_all add: zero_buffer_def)
next
  assume run: "main k (initial_state fs) = (0, s)"
  from main_outcomes [OF run]
  obtain fd st3 bq p st5 b1 st6 b2 ifd w where
    "Ioctl fd VIDIOC_QUERYBUF (Arg_buffer (zero_buffer\<lparr>buf_type := V4L2_BUF_TYPE_VIDEO_CAPTURE,
            buf_memory := V4L2_MEMORY_MMAP, buf_index := 0\<rparr>)) st3 (Arg_buffer bq) \<in> set (trace s)"
    "Mmap (buf_length bq) (PROT_READ OR PROT_WRITE) MAP_SHARED fd (m_offset bq) p \<in> set (trace s)"
    "Ioctl fd VIDIOC_QBUF (Arg_buffer (zero_buffer\<lparr>buf_type := V4L2_BUF_TYPE_VIDEO_CAPTURE,
            buf_memory := V4L2_MEMORY_MMAP, buf_index := 0\<rparr>)) st5 (Arg_buffer b1) \<in> set (trace s)"
    "Ioctl fd VIDIOC_DQBUF (Arg_buffer b1) st6 (Arg_buffer b2) \<in> set (trace s)"
    "buffer (camera_params s) = b2"
    "Write ifd p (buf_length b2) w \<in> set (trace s)"
    by (elim disjE exE conjE) simp_all
  moreover have "buf_length (zero_buffer\<lparr>buf_type := V4L2_BUF_TYPE_VIDEO_CAPTURE,
            buf_memory := V4L2_MEMORY_MMAP, buf_index := 0\<rparr>) = 0"
    "m_offset (zero_buffer\<lparr>buf_type := V4L2_BUF_TYPE_VIDEO_CAPTURE,
            buf_memory := V4L2_MEMORY_MMAP, buf_index := 0\<rparr>) = 0"
    by (simp_all add: zero_buffer_def)
  ultimately show "\<exists>fd a3 st3 bq prot mfl p b5 st5 r5 a6 st6 b2 ifd src w.
            Ioctl fd VIDIOC_QUERYBUF a3 st3 (Arg_buffer bq) \<in> set (trace s)
          \<and> Mmap (buf_length bq) prot mfl fd (m_offset bq) p \<in> set (trace s)
          \<and> Ioctl fd VIDIOC_QBUF (Arg_buffer b5) st5 r5 \<in> set (trace s)
          \<and> buf_length b5 = 0 \<and> m_offset b5 = 0
          \<and> Ioctl fd VIDIOC_DQBUF a6 st6 (Arg_buffer b2) \<in> set (trace s)
          \<and> buffer (camera_params s) = b2
          \<and> Write ifd src (buf_length b2) w \<in> set (trace s)"
    by blast
qed

theorem write_count_is_dequeued_length_witness:
  "activate_streaming demo_kernel (initial_state no_files)
     = Running (the_state (activate_streaming demo_kernel (initial_state no_files)))
   \<and> buf_length (buffer (camera_params
        (the_state (activate_streaming demo_kernel (initial_state no_files))))) = 0
   \<and> main demo_kernel (initial_state no_files) = (0, snd (main demo_kernel (initial_state no_files)))
   \<and> (\<exists>fd a6 st6 b2 ifd src w.
          Ioctl fd VIDIOC_DQBUF a6 st6 (Arg_buffer b2) \<in> set (trace (snd (main demo_kernel (initial_state no_files))))
        \<and> buffer (camera_params (snd (main demo_kernel (initial_state no_files)))) = b2
        \<and> Write ifd src (buf_length b2) w \<in> set (trace (snd (main demo_kernel (initial_state no_files)))))
   \<and> Mmap 4 (PROT_READ OR PROT_WRITE) MAP_SHARED 3 0 (Addr 4096) \<in> set (trace (snd (main demo_kernel (initial_state no_files))))
   \<and> Write 4 (Addr 4096) 3 3 \<in> set (trace (snd (main demo_kernel (initial_state no_files))))"
proof -
  have run: "main demo_kernel (initial_state no_files) = (0, snd (main demo_kernel (initial_state no_files)))"
    by (rule run_pair [OF demo_exit])
  have act: "activate_streaming demo_kernel (initial_state no_files)
     = Running (the_state (activate_streaming demo_kernel (initial_state no_files)))"
    by (rule running_state) code_simp
  have ev: "Mmap 4 (PROT_READ OR PROT_WRITE) MAP_SHARED 3 0 (Addr 4096) \<in> set (trace (snd (main demo_kernel (initial_state no_files))))"
    "Write 4 (Addr 4096) 3 3 \<in> set (trace (snd (main demo_kernel (initial_state no_files))))"
    by code_simp+
  note t = write_count_is_dequeued_length [of demo_kernel "initial_state no_files"
      "the_state (activate_streaming demo_kernel (initial_state no_files))" 0 no_files
      "snd (main demo_kernel (initial_state no_files))"]
  from t act have "buf_length (buffer (camera_params
        (the_state (activate_streaming demo_kernel (initial_state no_files))))) = 0"
    by blast
  moreover from t run have "\<exists>fd a6 st6 b2 ifd src w.
          Ioctl fd VIDIOC_DQBUF a6 st6 (Arg_buffer b2) \<in> set (trace (snd (main demo_kernel (initial_state no_files))))
        \<and> buffer (camera_params (snd (main demo_kernel (initial_state no_files)))) = b2
        \<and> Write ifd src (buf_length b2) w \<in> set (trace (snd (main demo_kernel (initial_state no_files))))"
    by blast
  ultimately show ?thesis
    using act run ev by simp
qed

text \<open>
  \<^bold>\<open>C10.\<close> The image is opened with \<open>O_WRONLY | O_CREAT\<close> and without \<open>O_TRUNC\<close>.
  When the file existed and is longer than the number of bytes the write stored, the
  file afterwards is the stored bytes followed by the old contents from there on: it
  keeps its length, everything beyond the stored bytes is what it was before, and the
  file differs from the bytes written, from the mapped region's first bytes, and from
  the \<open>buffer.length\<close> bytes at \<open>buffer_start\<close> when it was longer than those.
\<close>

theorem sink_keeps_tail_of_longer_file:
  assumes "main k (initial_state fs) = (c, s)"
    and "fs IMAGE_CAPTURE_SAVE_PATH = Some old"
    and "Write ifd src n w \<in> set (trace s)"
    and "0 \<le> w" and "nat w < length old"
  shows "(\<exists>flags fd. Open IMAGE_CAPTURE_SAVE_PATH flags fd \<in> set (trace s)
            \<and> flags = O_WRONLY OR O_CREAT \<and> flags AND O_CREAT \<noteq> 0 \<and> flags AND O_TRUNC = 0)
       \<and> (\<exists>new. files s IMAGE_CAPTURE_SAVE_PATH = Some new
            \<and> new = take (nat w) (read_memory k (region s) (unat n))
                    @ drop (length (take (nat w) (read_memory k (region s) (unat n)))) old
            \<and> length new = length old
            \<and> drop (nat w) new = drop (nat w) old
            \<and> new \<noteq> take (nat w) (read_memory k (region s) (unat n))
            \<and> new \<noteq> take (nat w) (region s)
            \<and> (unat n < length old \<longrightarrow> new \<noteq> read_memory k (region s) (unat n))
            \<and> (nat w \<le> unat n \<and> nat w \<le> length (region s) \<longrightarrow>
                  take (nat w) new = take (nat w) (region s)))"
proof -
  from main_outcomes [OF assms(1)] assms(3) paths_differ
  have tr: "\<exists>fd. Open IMAGE_CAPTURE_SAVE_PATH (O_WRONLY OR O_CREAT) fd \<in> set (trace s)"
    and "files s IMAGE_CAPTURE_SAVE_PATH =
              Some (put_bytes 0 (take (nat w) (read_memory k (region s) (unat n)))
                 (case fs IMAGE_CAPTURE_SAVE_PATH of None \<Rightarrow> [] | Some old \<Rightarrow> old))"
    by (elim disjE exE conjE; auto)+
  then have contents: "files s IMAGE_CAPTURE_SAVE_PATH =
              Some (put_bytes 0 (take (nat w) (read_memory k (region s) (unat n))) old)"
    using assms(2) by simp
  define bs where "bs = take (nat w) (read_memory k (region s) (unat n))"
  have len: "length bs = min (nat w) (unat n)"
    by (simp add: bs_def length_read_memory)
  then have short: "length bs \<le> nat w"
    by simp
  from contents have "files s IMAGE_CAPTURE_SAVE_PATH = Some (put_bytes 0 bs old)"
    by (simp only: bs_def)
  then have new: "files s IMAGE_CAPTURE_SAVE_PATH = Some (bs @ drop (length bs) old)"
    by (simp only: put_bytes_0)
  have l: "length (bs @ drop (length bs) old) = length old"
    using short assms(5) by simp
  have d: "drop (nat w) (bs @ drop (length bs) old) = drop (nat w) old"
    using short by simp
  have ne1: "bs @ drop (length bs) old \<noteq> bs"
    using short assms(5) by simp
  have ne2: "bs @ drop (length bs) old \<noteq> take (nat w) (region s)"
  proof
    assume "bs @ drop (length bs) old = take (nat w) (region s)"
    then have "length (bs @ drop (length bs) old) = length (take (nat w) (region s))"
      by (rule arg_cong)
    with l assms(5) show False
      by simp
  qed
  have ne3: "unat n < length old \<longrightarrow> bs @ drop (length bs) old \<noteq> read_memory k (region s) (unat n)"
  proof (intro impI notI)
    assume "unat n < length old"
      and "bs @ drop (length bs) old = read_memory k (region s) (unat n)"
    then have "length (bs @ drop (length bs) old) = unat n"
      by (simp only: length_read_memory)
    with l \<open>unat n < length old\<close> show False
      by simp
  qed
  have t: "nat w \<le> unat n \<and> nat w \<le> length (region s) \<longrightarrow>
      take (nat w) (bs @ drop (length bs) old) = take (nat w) (region s)"
  proof (intro impI)
    assume h: "nat w \<le> unat n \<and> nat w \<le> length (region s)"
    then have "bs = take (nat w) (region s)"
      by (auto simp: bs_def read_memory_def intro!: nth_equalityI)
    moreover from h have "length bs = nat w"
      by (simp add: len)
    ultimately show "take (nat w) (bs @ drop (length bs) old) = take (nat w) (region s)"
      by simp
  qed
  show ?thesis
    apply (rule conjI)
    using tr sink_flags apply blast
    apply (rule exI [of _ "bs @ drop (length bs) old"])
    apply (intro conjI)
           apply (rule new)
          apply (simp only: bs_def)
         apply (rule l)
        apply (rule d)
       apply (simp only: bs_def [symmetric] ne1 not_False_eq_True)
      apply (rule ne2)
     apply (rule ne3)
    apply (rule t)
    done
qed

theorem sink_keeps_tail_of_longer_file_witness:
  "main demo_kernel (initial_state old_image) = (0, snd (main demo_kernel (initial_state old_image)))
   \<and> old_image IMAGE_CAPTURE_SAVE_PATH = Some [1, 2, 3, 4, 5]
   \<and> Write 4 (Addr 4096) 3 3 \<in> set (trace (snd (main demo_kernel (initial_state old_image))))
   \<and> (\<exists>new. files (snd (main demo_kernel (initial_state old_image))) IMAGE_CAPTURE_SAVE_PATH = Some new
          \<and> length new = 5
          \<and> drop 3 new = [4, 5]
          \<and> new \<noteq> take 3 (region (snd (main demo_kernel (initial_state old_image)))))
   \<and> files (snd (main demo_kernel (initial_state old_image))) IMAGE_CAPTURE_SAVE_PATH = Some [0xFF, 0xD8, 0xFF, 4, 5]"
proof -
  have run: "main demo_kernel (initial_state old_image) = (0, snd (main demo_kernel (initial_state old_image)))"
    by (rule run_pair [OF demo_old_exit])
  have old: "old_image IMAGE_CAPTURE_SAVE_PATH = Some [1, 2, 3, 4, 5]"
    by (simp add: old_image_def)
  have ev: "Write 4 (Addr 4096) 3 3 \<in> set (trace (snd (main demo_kernel (initial_state old_image))))"
    by code_simp
  have after: "files (snd (main demo_kernel (initial_state old_image))) IMAGE_CAPTURE_SAVE_PATH = Some [0xFF, 0xD8, 0xFF, 4, 5]"
    by code_simp
  have w: "(0::int) \<le> 3" "nat 3 < length [1, 2, 3, 4, 5 :: u8]"
    by simp_all
  from sink_keeps_tail_of_longer_file [OF run old ev w]
  have "\<exists>new. files (snd (main demo_kernel (initial_state old_image))) IMAGE_CAPTURE_SAVE_PATH = Some new
          \<and> length new = 5
          \<and> drop 3 new = [4, 5]
          \<and> new \<noteq> take 3 (region (snd (main demo_kernel (initial_state old_image))))"
    by (elim conjE exE) (simp add: numeral_eq_Suc)
  with run old ev after show ?thesis
    by simp
qed

end
